theory Spec2Isabelle
  imports Complex_Main
begin

section \<open>Data model\<close>

text \<open>
  The puzzle container exists in three near-identical variants.  The first one (with
  \<^verbatim>\<open>enableAssist\<close>, \<^verbatim>\<open>reset\<close> and hint fills) is modelled in full; of the other
  two, the click handlers and the hint generation, which are the places where they differ.

  JavaScript numbers are modelled as exact real numbers.  This agrees with the double
  arithmetic of the source wherever that arithmetic is exact: on integers below \<open>2^53\<close>
  and on dyadic fractions such as \<open>2.5\<close>.  The presentational \<^verbatim>\<open>style\<close> strings and the
  \<^verbatim>\<open>size\<close> property they are computed from are left out.

  The methods \<^verbatim>\<open>_generatePieces\<close> and \<^verbatim>\<open>_generateHints\<close> are \<open>generatePieces_impl\<close> and
  \<open>generateHints_impl\<close> here, their \<^verbatim>\<open>for\<close> loops \<open>generatePieces_loop\<close> and
  \<open>generateHints_loop\<close>, and the bodies of these loops \<open>newPiece\<close> and \<open>newHint\<close>.
\<close>

datatype Shape = circle | square | triangle

text \<open>\<^verbatim>\<open>type SelectableValues = '' | Shape\<close>; \<open>Empty\<close> is the empty string.\<close>

datatype SelectableValues = Empty | Sel Shape

record Coordinates =
  column :: real
  row :: real

record PuzzleHint =
  key :: string
  coordinates :: Coordinates
  content :: nat
  shape :: Shape
  fill :: string

record PuzzlePiece =
  key :: string
  coordinates :: Coordinates
  fill :: string
  revealed :: bool
  "value" :: Shape
  selectedValue :: SelectableValues

definition REVEALED_FILL :: string where "REVEALED_FILL = ''#333333''"
definition SELECTED_FILL :: string where "SELECTED_FILL = ''#4D9DE0''"
definition COMPLETE_HINT :: string where "COMPLETE_HINT = ''#3BB273''"
definition INCOMPLETE_HINT :: string where "INCOMPLETE_HINT = ''#CCCCCC''"

definition REVEAL_PROBABILITY :: real where "REVEAL_PROBABILITY = 0.5"

definition SHAPES :: "Shape list" where "SHAPES = [circle, square, triangle]"

definition SELECTABLE_VALUES :: "SelectableValues list" where
  "SELECTABLE_VALUES = Empty # map Sel SHAPES"

section \<open>Numbers as strings\<close>

text \<open>
  A template literal renders a number with \<^verbatim>\<open>Number::toString\<close>.  An integer (of
  magnitude below \<open>10^21\<close>, which includes all integers a number holds exactly) is
  rendered by its decimal digits, with a leading minus sign when negative.  The digits
  of a number that is not an integer depend on its floating-point representation; they
  are not modelled, and are taken as the parameter \<open>render\<close> of every function that
  builds a key.  No property below depends on what \<open>render\<close> returns.
\<close>

definition digitChar :: "nat \<Rightarrow> char" where
  "digitChar d = ''0123456789'' ! d"

function natToString :: "nat \<Rightarrow> string" where
  "natToString n =
     (if n < 10 then [digitChar n] else natToString (n div 10) @ [digitChar (n mod 10)])"
  by pat_completeness auto
termination
  by (relation "measure (\<lambda>n. n)") auto

declare natToString.simps [simp del]

definition numberToString :: "(real \<Rightarrow> string) \<Rightarrow> real \<Rightarrow> string" where
  "numberToString render x =
     (if x = of_int \<lfloor>x\<rfloor> then
        (if x < 0 then ''-'' @ natToString (nat (- \<lfloor>x\<rfloor>)) else natToString (nat \<lfloor>x\<rfloor>))
      else render x)"

definition stringifyCoordinates :: "(real \<Rightarrow> string) \<Rightarrow> Coordinates \<Rightarrow> string" where
  "stringifyCoordinates render c =
     ''['' @ numberToString render (column c) @ '','' @ numberToString render (row c) @ '']''"

section \<open>The tally\<close>

text \<open>
  \<^verbatim>\<open>PuzzleTally\<close> wraps the piece array; its methods are functions of that array.  The
  string-literal type \<^verbatim>\<open>'column' | 'row'\<close> is the datatype \<open>Axis\<close>, and
  \<^verbatim>\<open>coordinates[columnOrRow]\<close> is \<open>axisOf\<close>.
\<close>

datatype Axis = Column | Row

fun axisOf :: "Axis \<Rightarrow> Coordinates \<Rightarrow> real" where
  "axisOf Column c = column c"
| "axisOf Row c = row c"

definition getValueCount :: "PuzzlePiece list \<Rightarrow> Axis \<Rightarrow> real \<Rightarrow> Shape \<Rightarrow> nat" where
  "getValueCount ps columnOrRow columnOrRowNumber sh =
     length (filter (\<lambda>p. columnOrRowNumber = axisOf columnOrRow (PuzzlePiece.coordinates p)
                          \<and> sh = value p) ps)"

definition getSelectedCount :: "PuzzlePiece list \<Rightarrow> Axis \<Rightarrow> real \<Rightarrow> Shape \<Rightarrow> nat" where
  "getSelectedCount ps columnOrRow columnOrRowNumber sh =
     length (filter (\<lambda>p. columnOrRowNumber = axisOf columnOrRow (PuzzlePiece.coordinates p)
                          \<and> Sel sh = selectedValue p) ps)"

definition getColumnValueCount :: "PuzzlePiece list \<Rightarrow> real \<Rightarrow> Shape \<Rightarrow> nat" where
  "getColumnValueCount ps columnNumber sh = getValueCount ps Column columnNumber sh"

definition getColumnSelectedCount :: "PuzzlePiece list \<Rightarrow> real \<Rightarrow> Shape \<Rightarrow> nat" where
  "getColumnSelectedCount ps columnNumber sh = getSelectedCount ps Column columnNumber sh"

definition getRowTally :: "PuzzlePiece list \<Rightarrow> real \<Rightarrow> Shape \<Rightarrow> nat" where
  "getRowTally ps rowNumber sh = getValueCount ps Row rowNumber sh"

definition getValidRowTally :: "PuzzlePiece list \<Rightarrow> real \<Rightarrow> Shape \<Rightarrow> nat" where
  "getValidRowTally ps rowNumber sh = getSelectedCount ps Row rowNumber sh"

section \<open>The container\<close>

record Container =
  enableAssist :: bool
  columns :: real
  rows :: real
  hints :: "PuzzleHint list"
  pieces :: "PuzzlePiece list"

text \<open>
  The setters store \<^verbatim>\<open>Number(val)\<close>.  For a value that already is a number,
  \<^verbatim>\<open>Number\<close> returns it as it is; only numeric inputs are modelled.
\<close>

definition Number :: "real \<Rightarrow> real" where
  "Number val = val"

definition set_columns :: "real \<Rightarrow> Container \<Rightarrow> Container" where
  "set_columns val st = st\<lparr>columns := Number val\<rparr>"

definition set_rows :: "real \<Rightarrow> Container \<Rightarrow> Container" where
  "set_rows val st = st\<lparr>rows := Number val\<rparr>"

definition checkValidity :: "Container \<Rightarrow> bool" where
  "checkValidity st = (\<not> list_ex (\<lambda>p. Sel (value p) \<noteq> selectedValue p) (pieces st))"

subsection \<open>Generating the pieces\<close>

text \<open>
  The remainder operator \<^verbatim>\<open>%\<close> truncates the quotient towards zero, so its result has
  the sign of the dividend.  With a zero divisor the source yields \<^verbatim>\<open>NaN\<close>; the loop
  below never gets there, since its body runs only when \<open>columns * rows\<close> is positive.
\<close>

definition trunc :: "real \<Rightarrow> int" where
  "trunc x = (if 0 \<le> x then \<lfloor>x\<rfloor> else \<lceil>x\<rceil>)"

definition js_rem :: "real \<Rightarrow> real \<Rightarrow> real" where
  "js_rem a b = a - b * of_int (trunc (a / b))"

text \<open>
  \<^verbatim>\<open>Math.random()\<close> is a stream of draws \<open>random 0, random 1, \<dots>\<close>, each in \<open>[0, 1)\<close>.
  One iteration of the loop takes two draws, the first for \<^verbatim>\<open>revealed\<close> and the second
  for \<^verbatim>\<open>value\<close>, and leaves the rest of the stream to the next iteration.  With a draw
  in \<open>[0, 1)\<close> the index into \<open>SHAPES\<close> is one of its three positions
  (\<open>random_shape_in_range\<close> below).
\<close>

definition newPiece :: "(real \<Rightarrow> string) \<Rightarrow> real \<Rightarrow> (nat \<Rightarrow> real) \<Rightarrow> nat \<Rightarrow> PuzzlePiece" where
  "newPiece render cols random index =
     (let c = \<lparr>column = js_rem (real index) cols + real (length SHAPES),
               row = of_int \<lfloor>real index / cols\<rfloor> + real (length SHAPES)\<rparr>;
          k = stringifyCoordinates render c;
          r = (REVEAL_PROBABILITY < random 0);
          v = SHAPES ! nat \<lfloor>random 1 * real (length SHAPES)\<rfloor>;
          s = (if r then Sel v else Empty);
          f = (if r then REVEALED_FILL else SELECTED_FILL)
      in \<lparr>PuzzlePiece.key = k, coordinates = c, fill = f, revealed = r,
          value = v, selectedValue = s\<rparr>)"

function generatePieces_loop ::
  "(real \<Rightarrow> string) \<Rightarrow> real \<Rightarrow> real \<Rightarrow> (nat \<Rightarrow> real) \<Rightarrow> nat \<Rightarrow> PuzzlePiece list
     \<Rightarrow> PuzzlePiece list" where
  "generatePieces_loop render cols count random index ps =
     (if real index < count
      then generatePieces_loop render cols count (\<lambda>n. random (n + 2)) (index + 1)
             (ps @ [newPiece render cols random index])
      else ps)"
  by pat_completeness auto
termination
  by (relation "measure (\<lambda>(render, cols, count, random, index, ps). nat \<lceil>count - real index\<rceil>)")
     (auto, linarith)

declare generatePieces_loop.simps [simp del]

definition generatePieces_impl :: "(real \<Rightarrow> string) \<Rightarrow> (nat \<Rightarrow> real) \<Rightarrow> Container \<Rightarrow> PuzzlePiece list" where
  "generatePieces_impl render random st =
     generatePieces_loop render (columns st) (columns st * rows st) random 0 []"

definition generatePieces :: "(real \<Rightarrow> string) \<Rightarrow> (nat \<Rightarrow> real) \<Rightarrow> Container \<Rightarrow> Container" where
  "generatePieces render random st = st\<lparr>pieces := generatePieces_impl render random st\<rparr>"

subsection \<open>Generating the hints\<close>

text \<open>
  The body of the \<^verbatim>\<open>for\<close> loop of \<^verbatim>\<open>_generateHints\<close>: the hint of one shape (at its
  position \<open>index\<close> in \<open>SHAPES\<close>) for one line coordinate.
\<close>

definition newHint ::
  "(real \<Rightarrow> string) \<Rightarrow> Container \<Rightarrow> bool \<Rightarrow> Shape \<Rightarrow> nat \<Rightarrow> real \<Rightarrow> PuzzleHint" where
  "newHint render st isRow sh index coord =
     (let valueCount = (if isRow then getRowTally (pieces st) coord sh
                        else getColumnValueCount (pieces st) coord sh);
          selectedCount = (if isRow then getValidRowTally (pieces st) coord sh
                           else getColumnSelectedCount (pieces st) coord sh);
          c = (if isRow then \<lparr>column = real index, row = coord\<rparr>
               else \<lparr>column = coord, row = real index\<rparr>);
          f = (if valueCount = selectedCount \<and> enableAssist st
               then COMPLETE_HINT else INCOMPLETE_HINT);
          k = stringifyCoordinates render c
      in \<lparr>PuzzleHint.key = k, coordinates = c, content = valueCount, shape = sh, fill = f\<rparr>)"

function generateHints_loop ::
  "(real \<Rightarrow> string) \<Rightarrow> Container \<Rightarrow> bool \<Rightarrow> Shape \<Rightarrow> nat \<Rightarrow> real \<Rightarrow> real \<Rightarrow> PuzzleHint list
     \<Rightarrow> PuzzleHint list" where
  "generateHints_loop render st isRow sh index tot coord hs =
     (if coord < tot
      then generateHints_loop render st isRow sh index tot (coord + 1)
             (hs @ [newHint render st isRow sh index coord])
      else hs)"
  by pat_completeness auto
termination
  by (relation "measure (\<lambda>(render, st, isRow, sh, index, tot, coord, hs). nat \<lceil>tot - coord\<rceil>)")
     (auto, linarith)

declare generateHints_loop.simps [simp del]

text \<open>\<^verbatim>\<open>SHAPES.forEach((shape, index) => ...)\<close> visits the shapes with their positions.\<close>

definition generateHints_impl ::
  "(real \<Rightarrow> string) \<Rightarrow> Container \<Rightarrow> real \<Rightarrow> real \<Rightarrow> bool \<Rightarrow> PuzzleHint list" where
  "generateHints_impl render st tot start isRow =
     fold (\<lambda>(sh, index) hs. generateHints_loop render st isRow sh index tot start hs)
       (zip SHAPES [0 ..< length SHAPES]) []"

definition generateRowHints :: "(real \<Rightarrow> string) \<Rightarrow> Container \<Rightarrow> PuzzleHint list" where
  "generateRowHints render st =
     generateHints_impl render st (rows st + real (length SHAPES)) (real (length SHAPES)) True"

definition generateColumnHints :: "(real \<Rightarrow> string) \<Rightarrow> Container \<Rightarrow> PuzzleHint list" where
  "generateColumnHints render st =
     generateHints_impl render st (columns st + real (length SHAPES)) (real (length SHAPES)) False"

definition generateHints :: "(real \<Rightarrow> string) \<Rightarrow> Container \<Rightarrow> Container" where
  "generateHints render st =
     st\<lparr>hints := generateColumnHints render st @ generateRowHints render st\<rparr>"

subsection \<open>Operations of the container\<close>

text \<open>
  \<^verbatim>\<open>reset\<close> assigns to the pieces that are not revealed, in place, and replaces the
  array by a copy of itself.
\<close>

definition reset :: "(real \<Rightarrow> string) \<Rightarrow> Container \<Rightarrow> Container" where
  "reset render st =
     (let st1 = st\<lparr>pieces := map (\<lambda>p. if \<not> revealed p then p\<lparr>selectedValue := Empty\<rparr> else p)
                                (pieces st)\<rparr>
      in if enableAssist st1 then generateHints render st1 else st1)"

definition new :: "(real \<Rightarrow> string) \<Rightarrow> (nat \<Rightarrow> real) \<Rightarrow> Container \<Rightarrow> Container" where
  "new render random st = generateHints render (generatePieces render random st)"

definition handleAssistClick :: "(real \<Rightarrow> string) \<Rightarrow> Container \<Rightarrow> Container" where
  "handleAssistClick render st = generateHints render (st\<lparr>enableAssist := \<not> enableAssist st\<rparr>)"

text \<open>
  \<^verbatim>\<open>Array.prototype.indexOf\<close> returns \<open>-1\<close> when the element is absent.
  \<^verbatim>\<open>Array.prototype.find\<close> returns the first matching element, the object itself, or
  \<^verbatim>\<open>undefined\<close>.  The elements of the piece array are separate objects, each built by
  its own iteration of the generator, so an assignment to a field of the object found
  is an update of the first matching element of the array (\<open>updateFirst\<close>).
  Destructuring \<^verbatim>\<open>undefined\<close> throws a \<^verbatim>\<open>TypeError\<close>.  A handler returns the exception
  it threw, if any, and the state it left behind.
\<close>

datatype error = TypeError

fun indexOf :: "'a list \<Rightarrow> 'a \<Rightarrow> int" where
  "indexOf [] x = - 1"
| "indexOf (y # ys) x =
     (if y = x then 0 else (let i = indexOf ys x in if i < 0 then - 1 else i + 1))"

fun updateFirst :: "('a \<Rightarrow> bool) \<Rightarrow> ('a \<Rightarrow> 'a) \<Rightarrow> 'a list \<Rightarrow> 'a list" where
  "updateFirst P f [] = []"
| "updateFirst P f (x # xs) = (if P x then f x # xs else x # updateFirst P f xs)"

text \<open>
  In \<open>(index + 1) % length\<close> the dividend is never negative (\<open>index \<ge> -1\<close>) and the
  divisor is positive, where \<^verbatim>\<open>%\<close> and \<open>mod\<close> agree.
\<close>

definition handleClick :: "(real \<Rightarrow> string) \<Rightarrow> string \<Rightarrow> Container \<Rightarrow> error option \<times> Container" where
  "handleClick render uid st =
     (case List.find (\<lambda>p. PuzzlePiece.key p = uid) (pieces st) of
        None \<Rightarrow> (Some TypeError, st)
      | Some piece \<Rightarrow>
          (let index = indexOf SELECTABLE_VALUES (selectedValue piece);
               nextIndex = (index + 1) mod int (length SELECTABLE_VALUES);
               st1 = st\<lparr>pieces := updateFirst (\<lambda>p. PuzzlePiece.key p = uid)
                        (\<lambda>p. p\<lparr>selectedValue := SELECTABLE_VALUES ! nat nextIndex\<rparr>) (pieces st)\<rparr>
           in (None, if enableAssist st1 then generateHints render st1 else st1)))"

section \<open>The variants without assist\<close>

text \<open>
  The second and the third container have no \<^verbatim>\<open>enableAssist\<close>, no \<^verbatim>\<open>reset\<close> and no
  hint fill.  Their click handlers touch the piece array only, and are modelled as
  functions of it.  Both return at once on a revealed piece.  The second one
  (\<open>handleClick_rotate\<close>) selects the first shape on the first click and then rotates
  through \<open>SHAPES\<close>; the third one (\<open>handleClick_cycle\<close>) steps through
  \<open>SELECTABLE_VALUES\<close>.
\<close>

definition handleClick_rotate :: "string \<Rightarrow> PuzzlePiece list \<Rightarrow> error option \<times> PuzzlePiece list" where
  "handleClick_rotate uid ps =
     (case List.find (\<lambda>p. PuzzlePiece.key p = uid) ps of
        None \<Rightarrow> (Some TypeError, ps)
      | Some piece \<Rightarrow>
          if revealed piece then (None, ps)
          else if selectedValue piece = Empty then
            (None, updateFirst (\<lambda>p. PuzzlePiece.key p = uid)
                     (\<lambda>p. p\<lparr>selectedValue := Sel (SHAPES ! 0)\<rparr>) ps)
          else
            (let index = indexOf (map Sel SHAPES) (selectedValue piece);
                 nextIndex = (index + 1) mod int (length SHAPES)
             in (None, updateFirst (\<lambda>p. PuzzlePiece.key p = uid)
                         (\<lambda>p. p\<lparr>selectedValue := Sel (SHAPES ! nat nextIndex)\<rparr>) ps)))"

definition handleClick_cycle :: "string \<Rightarrow> PuzzlePiece list \<Rightarrow> error option \<times> PuzzlePiece list" where
  "handleClick_cycle uid ps =
     (case List.find (\<lambda>p. PuzzlePiece.key p = uid) ps of
        None \<Rightarrow> (Some TypeError, ps)
      | Some piece \<Rightarrow>
          if revealed piece then (None, ps)
          else
            (let index = indexOf SELECTABLE_VALUES (selectedValue piece);
                 nextIndex = (index + 1) mod int (length SELECTABLE_VALUES)
             in (None, updateFirst (\<lambda>p. PuzzlePiece.key p = uid)
                         (\<lambda>p. p\<lparr>selectedValue := SELECTABLE_VALUES ! nat nextIndex\<rparr>) ps)))"

text \<open>
  The tally of these variants (\<^verbatim>\<open>getTally\<close>, with \<^verbatim>\<open>getColumnTally\<close> and \<^verbatim>\<open>getRowTally\<close>),
  a hint of these variants, and the loop that builds the hints (the same in both).
\<close>

definition getTally :: "PuzzlePiece list \<Rightarrow> Axis \<Rightarrow> real \<Rightarrow> Shape \<Rightarrow> nat" where
  "getTally ps columnOrRow columnOrRowNumber sh =
     length (filter (\<lambda>p. columnOrRowNumber = axisOf columnOrRow (PuzzlePiece.coordinates p)
                          \<and> sh = value p) ps)"

definition getColumnTally :: "PuzzlePiece list \<Rightarrow> real \<Rightarrow> Shape \<Rightarrow> nat" where
  "getColumnTally ps columnNumber sh = getTally ps Column columnNumber sh"

definition getRowTally_plain :: "PuzzlePiece list \<Rightarrow> real \<Rightarrow> Shape \<Rightarrow> nat" where
  "getRowTally_plain ps rowNumber sh = getTally ps Row rowNumber sh"

record PlainHint =
  key :: string
  coordinates :: Coordinates
  content :: nat
  shape :: Shape

definition newHint_plain ::
  "(real \<Rightarrow> string) \<Rightarrow> PuzzlePiece list \<Rightarrow> bool \<Rightarrow> Shape \<Rightarrow> nat \<Rightarrow> real \<Rightarrow> PlainHint" where
  "newHint_plain render ps isRow sh index coord =
     (let c = (if isRow then \<lparr>column = real index, row = coord\<rparr>
               else \<lparr>column = coord, row = real index\<rparr>);
          n = (if isRow then getRowTally_plain ps coord sh else getColumnTally ps coord sh);
          k = stringifyCoordinates render c
      in \<lparr>PlainHint.key = k, coordinates = c, content = n, shape = sh\<rparr>)"

function generateHints_loop_plain ::
  "(real \<Rightarrow> string) \<Rightarrow> PuzzlePiece list \<Rightarrow> bool \<Rightarrow> Shape \<Rightarrow> nat \<Rightarrow> real \<Rightarrow> real \<Rightarrow> PlainHint list
     \<Rightarrow> PlainHint list" where
  "generateHints_loop_plain render ps isRow sh index tot coord hs =
     (if coord < tot
      then generateHints_loop_plain render ps isRow sh index tot (coord + 1)
             (hs @ [newHint_plain render ps isRow sh index coord])
      else hs)"
  by pat_completeness auto
termination
  by (relation "measure (\<lambda>(render, ps, isRow, sh, index, tot, coord, hs). nat \<lceil>tot - coord\<rceil>)")
     (auto, linarith)

declare generateHints_loop_plain.simps [simp del]

definition generateHints_impl_plain ::
  "(real \<Rightarrow> string) \<Rightarrow> PuzzlePiece list \<Rightarrow> real \<Rightarrow> real \<Rightarrow> bool \<Rightarrow> PlainHint list" where
  "generateHints_impl_plain render ps tot start isRow =
     fold (\<lambda>(sh, index) hs. generateHints_loop_plain render ps isRow sh index tot start hs)
       (zip SHAPES [0 ..< length SHAPES]) []"

definition generateRowHints_plain :: "(real \<Rightarrow> string) \<Rightarrow> Container \<Rightarrow> PlainHint list" where
  "generateRowHints_plain render st =
     generateHints_impl_plain render (pieces st) (rows st + real (length SHAPES))
       (real (length SHAPES)) True"

definition generateColumnHints_plain :: "(real \<Rightarrow> string) \<Rightarrow> Container \<Rightarrow> PlainHint list" where
  "generateColumnHints_plain render st =
     generateHints_impl_plain render (pieces st) (columns st + real (length SHAPES))
       (real (length SHAPES)) False"

definition generateHints_plain :: "(real \<Rightarrow> string) \<Rightarrow> Container \<Rightarrow> PlainHint list" where
  "generateHints_plain render st =
     generateColumnHints_plain render st @ generateRowHints_plain render st"

text \<open>The container as its field initialisers leave it.\<close>

definition initialContainer :: Container where
  "initialContainer = \<lparr>enableAssist = False, columns = 3, rows = 3, hints = [], pieces = []\<rparr>"

text \<open>
  The piece that iteration \<open>i\<close> of the loop appends: it takes the draws \<open>2 * i\<close> and
  \<open>2 * i + 1\<close> of the stream the loop started with.
\<close>

definition pieceAt :: "(real \<Rightarrow> string) \<Rightarrow> real \<Rightarrow> (nat \<Rightarrow> real) \<Rightarrow> nat \<Rightarrow> PuzzlePiece" where
  "pieceAt render cols random i = newPiece render cols (\<lambda>n. random (n + 2 * i)) i"

text \<open>
  Inputs for the examples: a renderer for non-integers that prints nothing, a random
  source that always draws the same number, and a grid of two columns and one row
  whose first piece (a circle, hidden) has been clicked twice and whose second piece
  (a square) is revealed.
\<close>

definition noRender :: "real \<Rightarrow> string" where
  "noRender x = []"

definition constRandom :: "real \<Rightarrow> nat \<Rightarrow> real" where
  "constRandom r k = r"

definition examplePieces :: "PuzzlePiece list" where
  "examplePieces =
     [\<lparr>PuzzlePiece.key = ''[3,3]'', coordinates = \<lparr>column = 3, row = 3\<rparr>, fill = SELECTED_FILL,
       revealed = False, value = circle, selectedValue = Sel square\<rparr>,
      \<lparr>PuzzlePiece.key = ''[4,3]'', coordinates = \<lparr>column = 4, row = 3\<rparr>, fill = REVEALED_FILL,
       revealed = True, value = square, selectedValue = Sel square\<rparr>]"

definition exampleContainer :: Container where
  "exampleContainer =
     \<lparr>enableAssist = True, columns = 2, rows = 1, hints = [], pieces = examplePieces\<rparr>"

text \<open>
  The piece array that a click leaves behind, so that clicks can be iterated, and a
  grid of a single hidden circle with nothing selected.
\<close>

definition clickRotate :: "string \<Rightarrow> PuzzlePiece list \<Rightarrow> PuzzlePiece list" where
  "clickRotate uid ps = snd (handleClick_rotate uid ps)"

definition clickCycle :: "string \<Rightarrow> PuzzlePiece list \<Rightarrow> PuzzlePiece list" where
  "clickCycle uid ps = snd (handleClick_cycle uid ps)"

definition singlePiece :: PuzzlePiece where
  "singlePiece =
     \<lparr>PuzzlePiece.key = ''[3,3]'', coordinates = \<lparr>column = 3, row = 3\<rparr>, fill = SELECTED_FILL,
      revealed = False, value = circle, selectedValue = Empty\<rparr>"

section \<open>Properties\<close>

subsection \<open>Array reads stay in range\<close>

text \<open>
  The source reads \<open>SHAPES\<close> and \<open>SELECTABLE_VALUES\<close> by computed indices.  A draw of
  \<^verbatim>\<open>Math.random()\<close> lies in \<open>[0, 1)\<close>, and an index advanced modulo the length of the
  array lies within it, so none of these reads is out of range.  The body of the piece
  loop runs only with a divisor \<open>columns\<close> other than zero.
\<close>

lemma random_shape_in_range:
  assumes "0 \<le> q" and "q < 1"
  shows "nat \<lfloor>q * real (length SHAPES)\<rfloor> < length SHAPES"
proof -
  have n: "length SHAPES = 3" by (simp add: SHAPES_def)
  have "q * 3 < 3" using assms by simp
  then have "\<lfloor>q * 3\<rfloor> < 3" by linarith
  then have "nat \<lfloor>q * 3\<rfloor> < 3" by linarith
  then show ?thesis unfolding n by simp
qed

lemma loop_body_divisor: "real index < cols * rws \<Longrightarrow> cols \<noteq> 0"
  by (cases "cols = 0") simp_all

lemma indexOf_lower: "- 1 \<le> indexOf xs x"
  by (induction xs) (simp_all add: Let_def)

lemma next_index_in_range:
  assumes "xs \<noteq> []"
  shows "0 \<le> (indexOf xs x + 1) mod int (length xs)"
    and "nat ((indexOf xs x + 1) mod int (length xs)) < length xs"
proof -
  have l: "0 < int (length xs)" using assms by simp
  then show z: "0 \<le> (indexOf xs x + 1) mod int (length xs)" by simp
  have "(indexOf xs x + 1) mod int (length xs) < int (length xs)"
    using l by (rule pos_mod_bound)
  with z show "nat ((indexOf xs x + 1) mod int (length xs)) < length xs"
    by (simp only: nat_less_iff)
qed

subsection \<open>Keys are injective on integer coordinates\<close>

lemma digitChar_inj: "a < 10 \<Longrightarrow> b < 10 \<Longrightarrow> digitChar a = digitChar b \<Longrightarrow> a = b"
proof -
  assume a: "a < 10" and b: "b < 10" and e: "digitChar a = digitChar b"
  have d: "distinct ''0123456789''" by simp
  have "a < length ''0123456789''" "b < length ''0123456789''" using a b by simp_all
  with d e show "a = b" unfolding digitChar_def by (simp only: nth_eq_iff_index_eq)
qed

lemma digitChar_digit: "d < 10 \<Longrightarrow> digitChar d \<in> set ''0123456789''"
  unfolding digitChar_def by (rule nth_mem) simp

lemma natToString_digits: "set (natToString n) \<subseteq> set ''0123456789''"
proof (induction n rule: natToString.induct)
  case (1 n)
  show ?case
  proof (cases "n < 10")
    case True
    then show ?thesis using digitChar_digit [of n] by (subst natToString.simps) simp
  next
    case False
    have "n mod 10 < 10" by simp
    then have "digitChar (n mod 10) \<in> set ''0123456789''" by (rule digitChar_digit)
    with False 1 show ?thesis by (subst natToString.simps) simp
  qed
qed

lemma natToString_nonempty: "natToString n \<noteq> []"
  by (subst natToString.simps) simp

lemma natToString_inj: "natToString n = natToString m \<Longrightarrow> n = m"
proof (induction n arbitrary: m rule: natToString.induct)
  case (1 n)
  show ?case
  proof (cases "n < 10")
    case n: True
    show ?thesis
    proof (cases "m < 10")
      case True
      with n 1(2) show ?thesis
        by (simp add: natToString.simps [of n] natToString.simps [of m] digitChar_inj)
    next
      case False
      with n 1(2) show ?thesis
        using natToString_nonempty [of "m div 10"]
        by (simp add: natToString.simps [of n] natToString.simps [of m])
    qed
  next
    case n: False
    show ?thesis
    proof (cases "m < 10")
      case True
      with n 1(2) show ?thesis
        using natToString_nonempty [of "n div 10"]
        by (simp add: natToString.simps [of n] natToString.simps [of m])
    next
      case False
      with n 1(2) have e: "natToString (n div 10) = natToString (m div 10)"
        and d: "digitChar (n mod 10) = digitChar (m mod 10)"
        by (simp_all add: natToString.simps [of n] natToString.simps [of m])
      from 1(1) [OF n e] have "n div 10 = m div 10" .
      moreover from d have "n mod 10 = m mod 10" by (rule digitChar_inj [rotated 2]) simp_all
      ultimately show ?thesis by (metis div_mult_mod_eq)
    qed
  qed
qed

lemma numberToString_nat: "numberToString render (real n) = natToString n"
  by (simp add: numberToString_def)

lemma append_sep_inj:
  assumes "xs @ s # ys = xs' @ s # ys'" and "s \<notin> set xs" and "s \<notin> set xs'"
  shows "xs = xs' \<and> ys = ys'"
  using assms
proof (induction xs arbitrary: xs')
  case Nil
  then show ?case by (cases xs') auto
next
  case (Cons x xs)
  then show ?case by (cases xs') auto
qed

lemma comma_not_digit: "CHR '','' \<notin> set (natToString k)"
proof -
  have "CHR '','' \<notin> set ''0123456789''" by simp
  with natToString_digits [of k] show ?thesis by blast
qed

lemma stringifyCoordinates_nat:
  "stringifyCoordinates render \<lparr>column = real a, row = real b\<rparr>
     = CHR ''['' # natToString a @ CHR '','' # (natToString b @ '']'')"
  by (simp add: stringifyCoordinates_def numberToString_nat)

lemma stringifyCoordinates_nat_inj:
  assumes "stringifyCoordinates render \<lparr>column = real a, row = real b\<rparr>
         = stringifyCoordinates render \<lparr>column = real c, row = real d\<rparr>"
  shows "a = c \<and> b = d"
proof -
  from assms have "natToString a @ CHR '','' # (natToString b @ '']'')
                 = natToString c @ CHR '','' # (natToString d @ '']'')"
    by (simp only: stringifyCoordinates_nat list.inject)
  from append_sep_inj [OF this comma_not_digit comma_not_digit]
  have "natToString a = natToString c" and "natToString b = natToString d" by simp_all
  then show ?thesis by (simp add: natToString_inj)
qed

subsection \<open>The loop of the piece generator\<close>

lemma loop_guard: "(real i < c) = (i < nat \<lceil>c\<rceil>)"
  by (metis less_ceiling_iff of_int_of_nat_eq zless_nat_eq_int_zless nat_int)

lemma generatePieces_loop_eq:
  "generatePieces_loop render cols count (\<lambda>n. random (n + 2 * index)) index ps
     = ps @ map (pieceAt render cols random) [index ..< nat \<lceil>count\<rceil>]"
proof (induction "nat \<lceil>count\<rceil> - index" arbitrary: index ps)
  case 0
  then have n: "\<not> index < nat \<lceil>count\<rceil>" by arith
  then have g: "\<not> real index < count" unfolding loop_guard .
  show ?case by (subst generatePieces_loop.simps) (use n g in simp)
next
  case (Suc k)
  then have lt: "index < nat \<lceil>count\<rceil>" by simp
  then have g: "real index < count" unfolding loop_guard .
  have k: "k = nat \<lceil>count\<rceil> - (index + 1)" using Suc(2) by simp
  have sh: "(\<lambda>n. random (n + 2 + 2 * index)) = (\<lambda>n. random (n + 2 * (index + 1)))"
    by (simp add: add.commute add.left_commute)
  have "generatePieces_loop render cols count (\<lambda>n. random (n + 2 * index)) index ps
      = generatePieces_loop render cols count (\<lambda>n. random (n + 2 * (index + 1))) (index + 1)
          (ps @ [pieceAt render cols random index])"
    using g by (subst generatePieces_loop.simps) (simp add: sh pieceAt_def)
  also have "\<dots> = (ps @ [pieceAt render cols random index])
                 @ map (pieceAt render cols random) [index + 1 ..< nat \<lceil>count\<rceil>]"
    by (rule Suc(1) [OF k])
  also have "\<dots> = ps @ map (pieceAt render cols random) [index ..< nat \<lceil>count\<rceil>]"
    using lt by (simp add: upt_conv_Cons)
  finally show ?case .
qed

lemma generatePieces_impl_eq:
  "generatePieces_impl render random st
     = map (pieceAt render (columns st) random) [0 ..< nat \<lceil>columns st * rows st\<rceil>]"
  using generatePieces_loop_eq [of render "columns st" "columns st * rows st" random 0 "[]"]
  by (simp add: generatePieces_impl_def)

lemma js_rem_nat: "0 < c \<Longrightarrow> js_rem (real i) (real c) = real (i mod c)"
proof -
  assume c: "0 < c"
  have "trunc (real i / real c) = int (i div c)"
    by (simp add: trunc_def floor_divide_of_nat_eq)
  then have "js_rem (real i) (real c) = real i - real c * real (i div c)"
    by (simp add: js_rem_def)
  also have "\<dots> = real (i mod c)"
    by (metis add_diff_cancel_left' mult_div_mod_eq of_nat_add of_nat_mult)
  finally show ?thesis .
qed

lemma pieceAt_coordinates:
  "0 < c \<Longrightarrow> PuzzlePiece.coordinates (pieceAt render (real c) random i)
     = \<lparr>column = real (i mod c + 3), row = real (i div c + 3)\<rparr>"
  by (simp add: pieceAt_def newPiece_def Let_def js_rem_nat floor_divide_of_nat_eq SHAPES_def)

lemma pieceAt_key:
  "PuzzlePiece.key (pieceAt render cols random i)
     = stringifyCoordinates render (PuzzlePiece.coordinates (pieceAt render cols random i))"
  by (simp add: pieceAt_def newPiece_def Let_def)

lemma pieceAt_selectedValue:
  "selectedValue (pieceAt render cols random i)
     = (if revealed (pieceAt render cols random i)
        then Sel (value (pieceAt render cols random i)) else Empty)"
  by (simp add: pieceAt_def newPiece_def Let_def)

lemma count_nat: "nat \<lceil>real c * real r\<rceil> = c * r"
proof -
  have "real c * real r = real (c * r)" by simp
  then show ?thesis by (simp only: ceiling_of_nat nat_int)
qed

lemma pieces_grid:
  "pieces (generatePieces render random (set_rows (real r) (set_columns (real c) st)))
     = map (pieceAt render (real c) random) [0 ..< c * r]"
  by (simp add: generatePieces_def generatePieces_impl_eq set_rows_def set_columns_def
        Number_def count_nat)

lemma grid_index_inj:
  fixes c :: nat
  assumes "i mod c = j mod c" and "i div c = j div c"
  shows "i = j"
  by (metis assms div_mult_mod_eq)

lemma pieceAt_key_inj:
  assumes c: "0 < c"
    and e: "PuzzlePiece.key (pieceAt render (real c) random i)
          = PuzzlePiece.key (pieceAt render (real c) random j)"
  shows "i = j"
proof -
  from e have "stringifyCoordinates render \<lparr>column = real (i mod c + 3), row = real (i div c + 3)\<rparr>
             = stringifyCoordinates render \<lparr>column = real (j mod c + 3), row = real (j div c + 3)\<rparr>"
    by (simp only: pieceAt_key pieceAt_coordinates [OF c])
  then have "i mod c + 3 = j mod c + 3 \<and> i div c + 3 = j div c + 3"
    by (rule stringifyCoordinates_nat_inj)
  then show ?thesis using grid_index_inj [of i c j] by simp
qed

lemma grid_cells:
  fixes c r :: nat
  assumes c: "0 < c"
  shows "(\<lambda>i. (i mod c + 3, i div c + 3)) ` {0 ..< c * r} = {3 ..< 3 + c} \<times> {3 ..< 3 + r}"
proof (intro set_eqI iffI)
  fix x assume "x \<in> (\<lambda>i. (i mod c + 3, i div c + 3)) ` {0 ..< c * r}"
  then obtain i where i: "i < c * r" and x: "x = (i mod c + 3, i div c + 3)" by auto
  have "i mod c < c" using c by simp
  moreover have "i div c < r" using i by (simp add: less_mult_imp_div_less mult.commute)
  ultimately show "x \<in> {3 ..< 3 + c} \<times> {3 ..< 3 + r}" using x by simp
next
  fix x assume "x \<in> {3 ..< 3 + c} \<times> {3 ..< 3 + r}"
  then obtain a b where x: "x = (a, b)" and a: "3 \<le> a" "a < 3 + c" and b: "3 \<le> b" "b < 3 + r"
    by auto
  define i where "i = (b - 3) * c + (a - 3)"
  have a3: "a - 3 < c" using a by arith
  have b3: "b - 3 < r" using b by arith
  have m: "i mod c = a - 3" using a3 by (simp add: i_def)
  have d: "i div c = b - 3" using a3 c by (simp add: i_def)
  have "(b - 3) * c + (a - 3) < (b - 3) * c + c" using a3 by simp
  also have "\<dots> = (b - 3 + 1) * c" by (simp add: algebra_simps)
  also have "\<dots> \<le> r * c" using b3 by (intro mult_le_mono1) arith
  finally have "i < c * r" by (simp add: i_def mult.commute)
  moreover have "x = (i mod c + 3, i div c + 3)" using x m d a b by simp
  ultimately show "x \<in> (\<lambda>i. (i mod c + 3, i div c + 3)) ` {0 ..< c * r}" by auto
qed

text \<open>
  C1.  For positive integer dimensions \<open>c\<close> and \<open>r\<close>, \<^verbatim>\<open>generatePieces\<close> yields exactly
  \<open>c * r\<close> pieces; their keys are pairwise distinct; their coordinates are exactly the
  cells of \<open>{n ..< n + c} \<times> {n ..< n + r}\<close>, where \<open>n\<close> is the number of shapes; and
  the piece of linear index \<open>i\<close> sits at column \<open>i mod c + n\<close> and row \<open>i div c + n\<close>
  (row-major order), its key being its stringified coordinates.
\<close>

theorem generatePieces_grid:
  assumes c: "0 < c" and r: "0 < r"
  shows "let ps = pieces (generatePieces render random (set_rows (real r) (set_columns (real c) st)));
             n = length SHAPES
         in length ps = c * r
          \<and> distinct (map PuzzlePiece.key ps)
          \<and> PuzzlePiece.coordinates ` set ps
              = (\<lambda>(a, b). \<lparr>column = real a, row = real b\<rparr>) ` ({n ..< n + c} \<times> {n ..< n + r})
          \<and> (\<forall>i < c * r. PuzzlePiece.coordinates (ps ! i)
                = \<lparr>column = real (i mod c + n), row = real (i div c + n)\<rparr>
              \<and> PuzzlePiece.key (ps ! i) = stringifyCoordinates render (PuzzlePiece.coordinates (ps ! i)))"
proof -
  let ?f = "pieceAt render (real c) random"
  let ?ps = "map ?f [0 ..< c * r]"
  have n: "length SHAPES = 3" by (simp add: SHAPES_def)
  have len: "length ?ps = c * r" by simp
  have "inj_on (\<lambda>i. PuzzlePiece.key (?f i)) {0 ..< c * r}"
    by (rule inj_onI) (rule pieceAt_key_inj [OF c])
  then have dist: "distinct (map PuzzlePiece.key ?ps)"
    by (simp add: distinct_map comp_def)
  have "PuzzlePiece.coordinates ` set ?ps
      = (\<lambda>i. \<lparr>column = real (i mod c + 3), row = real (i div c + 3)\<rparr>) ` {0 ..< c * r}"
    by (simp add: image_image pieceAt_coordinates [OF c])
  also have "\<dots> = (\<lambda>(a, b). \<lparr>column = real a, row = real b\<rparr>)
                      ` ((\<lambda>i. (i mod c + 3, i div c + 3)) ` {0 ..< c * r})"
    by (simp add: image_image)
  finally have cells: "PuzzlePiece.coordinates ` set ?ps
      = (\<lambda>(a, b). \<lparr>column = real a, row = real b\<rparr>) ` ({3 ..< 3 + c} \<times> {3 ..< 3 + r})"
    by (simp only: grid_cells [OF c])
  have at: "\<forall>i < c * r. PuzzlePiece.coordinates (?ps ! i)
                = \<lparr>column = real (i mod c + 3), row = real (i div c + 3)\<rparr>
              \<and> PuzzlePiece.key (?ps ! i)
                = stringifyCoordinates render (PuzzlePiece.coordinates (?ps ! i))"
    by (simp add: pieceAt_coordinates [OF c] pieceAt_key)
  show ?thesis
    unfolding Let_def pieces_grid n using len dist cells at by blast
qed

theorem generatePieces_grid_witness:
  "let ps = pieces (generatePieces noRender (constRandom (3 / 4))
                      (set_rows (real 1) (set_columns (real 2) initialContainer)))
   in length ps = 2 \<and> distinct (map PuzzlePiece.key ps)
    \<and> PuzzlePiece.coordinates (ps ! 1) = \<lparr>column = 4, row = 3\<rparr>"
proof -
  have c: "(0::nat) < 2" and r: "(0::nat) < 1" by simp_all
  have n: "length SHAPES = 3" by (simp add: SHAPES_def)
  from generatePieces_grid [OF c r, of noRender "constRandom (3 / 4)" initialContainer]
  show ?thesis unfolding Let_def n by simp
qed

subsection \<open>The loop of the hint generator\<close>

lemma shapes_indexed: "zip SHAPES [0 ..< length SHAPES] = [(circle, 0), (square, 1), (triangle, 2)]"
  by (simp add: SHAPES_def upt_conv_Cons)

lemma generateHints_loop_all:
  assumes "\<forall>h \<in> set hs. P h" and "\<And>coord. P (newHint render st isRow sh index coord)"
  shows "\<forall>h \<in> set (generateHints_loop render st isRow sh index tot coord hs). P h"
  using assms
proof (induction render st isRow sh index tot coord hs rule: generateHints_loop.induct)
  case (1 render st isRow sh index tot coord hs)
  show ?case
  proof (cases "coord < tot")
    case True
    have "\<forall>h \<in> set (hs @ [newHint render st isRow sh index coord]). P h"
      using 1(2) 1(3) by simp
    from 1(1) [OF True this 1(3)] True show ?thesis
      by (subst generateHints_loop.simps) simp
  next
    case False
    with 1(2) show ?thesis by (subst generateHints_loop.simps) simp
  qed
qed

lemma generateHints_impl_all:
  assumes "\<And>sh index coord. P (newHint render st isRow sh index coord)"
  shows "\<forall>h \<in> set (generateHints_impl render st tot start isRow). P h"
proof -
  have e: "\<forall>h \<in> set ([] :: PuzzleHint list). P h" by simp
  note a = generateHints_loop_all [where P = P, OF _ assms]
  show ?thesis
    unfolding generateHints_impl_def shapes_indexed fold_simps prod.case
    by (intro a e)
qed

lemma hint_guard: "(real j < real t) = (j < t)"
  by simp

lemma generateHints_loop_eq:
  "generateHints_loop render st isRow sh index (real t) (real s) hs
     = hs @ map (\<lambda>j. newHint render st isRow sh index (real j)) [s ..< t]"
proof (induction "t - s" arbitrary: s hs)
  case 0
  then have n: "\<not> s < t" by arith
  then show ?case by (subst generateHints_loop.simps) simp
next
  case (Suc k)
  then have lt: "s < t" by arith
  have k: "k = t - (s + 1)" using Suc(2) by arith
  have s1: "real s + 1 = real (s + 1)" by simp
  have "generateHints_loop render st isRow sh index (real t) (real s) hs
      = generateHints_loop render st isRow sh index (real t) (real (s + 1))
          (hs @ [newHint render st isRow sh index (real s)])"
    using lt by (subst generateHints_loop.simps) (simp only: s1 hint_guard if_True)
  also have "\<dots> = (hs @ [newHint render st isRow sh index (real s)])
                 @ map (\<lambda>j. newHint render st isRow sh index (real j)) [s + 1 ..< t]"
    by (rule Suc(1) [OF k])
  also have "\<dots> = hs @ map (\<lambda>j. newHint render st isRow sh index (real j)) [s ..< t]"
    using lt by (simp add: upt_conv_Cons)
  finally show ?case .
qed

lemma generateHints_impl_eq:
  "generateHints_impl render st (real t) (real s) isRow
     = concat (map (\<lambda>(sh, index). map (\<lambda>j. newHint render st isRow sh index (real j)) [s ..< t])
         (zip SHAPES [0 ..< length SHAPES]))"
  unfolding generateHints_impl_def shapes_indexed
  by (simp add: generateHints_loop_eq)

lemma newHint_fields:
  "PuzzleHint.coordinates (newHint render st isRow sh index coord)
     = (if isRow then \<lparr>column = real index, row = coord\<rparr> else \<lparr>column = coord, row = real index\<rparr>)"
  "PuzzleHint.key (newHint render st isRow sh index coord)
     = stringifyCoordinates render (PuzzleHint.coordinates (newHint render st isRow sh index coord))"
  "PuzzleHint.shape (newHint render st isRow sh index coord) = sh"
  "PuzzleHint.content (newHint render st isRow sh index coord)
     = getValueCount (pieces st) (if isRow then Row else Column) coord sh"
  "PuzzleHint.fill (newHint render st isRow sh index coord)
     = (if getValueCount (pieces st) (if isRow then Row else Column) coord sh
          = getSelectedCount (pieces st) (if isRow then Row else Column) coord sh
          \<and> enableAssist st
        then COMPLETE_HINT else INCOMPLETE_HINT)"
  by (simp_all add: newHint_def Let_def getRowTally_def getColumnValueCount_def
        getValidRowTally_def getColumnSelectedCount_def)

subsection \<open>The hints of a grid with integer dimensions\<close>

lemma generateRowHints_eq:
  assumes "rows st = real r"
  shows "generateRowHints render st
     = concat (map (\<lambda>(sh, index). map (\<lambda>j. newHint render st True sh index (real j)) [3 ..< 3 + r])
         (zip SHAPES [0 ..< length SHAPES]))"
proof -
  have "rows st + real (length SHAPES) = real (3 + r)" "real (length SHAPES) = real 3"
    using assms by (simp_all add: SHAPES_def)
  then show ?thesis
    unfolding generateRowHints_def by (simp only: generateHints_impl_eq)
qed

lemma generateColumnHints_eq:
  assumes "columns st = real c"
  shows "generateColumnHints render st
     = concat (map (\<lambda>(sh, index). map (\<lambda>j. newHint render st False sh index (real j)) [3 ..< 3 + c])
         (zip SHAPES [0 ..< length SHAPES]))"
proof -
  have "columns st + real (length SHAPES) = real (3 + c)" "real (length SHAPES) = real 3"
    using assms by (simp_all add: SHAPES_def)
  then show ?thesis
    unfolding generateColumnHints_def by (simp only: generateHints_impl_eq)
qed

text \<open>
  C3.  For integer dimensions \<open>c\<close> and \<open>r\<close> (positive or zero), \<^verbatim>\<open>generateHints\<close> stores the
  column hints followed by the row hints, \<open>n * (c + r)\<close> hints in all, \<open>n\<close> being the
  number of shapes.  The row hints are, shape by shape in the order of \<open>SHAPES\<close>, one
  hint per row \<open>j\<close> of \<open>[n, n + r)\<close>, at column \<open>i\<close> (the position of the shape) and row
  \<open>j\<close>; the column hints are one hint per column \<open>j\<close> of \<open>[n, n + c)\<close>, at column \<open>j\<close>
  and row \<open>i\<close>.
\<close>

theorem generateHints_enumeration:
  "let st' = set_rows (real r) (set_columns (real c) st);
       n = length SHAPES
   in hints (generateHints render st') = generateColumnHints render st' @ generateRowHints render st'
    \<and> length (hints (generateHints render st')) = n * (c + r)
    \<and> map (\<lambda>h. (PuzzleHint.shape h, PuzzleHint.coordinates h)) (generateRowHints render st')
        = concat (map (\<lambda>(sh, i). map (\<lambda>j. (sh, \<lparr>column = real i, row = real j\<rparr>)) [n ..< n + r])
            (zip SHAPES [0 ..< n]))
    \<and> map (\<lambda>h. (PuzzleHint.shape h, PuzzleHint.coordinates h)) (generateColumnHints render st')
        = concat (map (\<lambda>(sh, i). map (\<lambda>j. (sh, \<lparr>column = real j, row = real i\<rparr>)) [n ..< n + c])
            (zip SHAPES [0 ..< n]))"
proof -
  let ?st = "set_rows (real r) (set_columns (real c) st)"
  have r: "rows ?st = real r" and c: "columns ?st = real c"
    by (simp_all add: set_rows_def set_columns_def Number_def)
  have n: "length SHAPES = 3" by (simp add: SHAPES_def)
  have h: "hints (generateHints render ?st) = generateColumnHints render ?st @ generateRowHints render ?st"
    by (simp add: generateHints_def)
  have lr: "length (generateRowHints render ?st) = 3 * r"
    unfolding generateRowHints_eq [OF r] shapes_indexed by simp
  have lc: "length (generateColumnHints render ?st) = 3 * c"
    unfolding generateColumnHints_eq [OF c] shapes_indexed by simp
  have len: "length (hints (generateHints render ?st)) = 3 * (c + r)"
    unfolding h using lr lc by simp
  have rw: "map (\<lambda>h. (PuzzleHint.shape h, PuzzleHint.coordinates h)) (generateRowHints render ?st)
        = concat (map (\<lambda>(sh, i). map (\<lambda>j. (sh, \<lparr>column = real i, row = real j\<rparr>)) [3 ..< 3 + r])
            (zip SHAPES [0 ..< 3]))"
    unfolding generateRowHints_eq [OF r] shapes_indexed shapes_indexed [unfolded n]
    by (simp add: newHint_fields comp_def)
  have cl: "map (\<lambda>h. (PuzzleHint.shape h, PuzzleHint.coordinates h)) (generateColumnHints render ?st)
        = concat (map (\<lambda>(sh, i). map (\<lambda>j. (sh, \<lparr>column = real j, row = real i\<rparr>)) [3 ..< 3 + c])
            (zip SHAPES [0 ..< 3]))"
    unfolding generateColumnHints_eq [OF c] shapes_indexed shapes_indexed [unfolded n]
    by (simp add: newHint_fields comp_def)
  show ?thesis
    unfolding Let_def n using h len rw cl by blast
qed

subsection \<open>Content and fill of a hint\<close>

lemma newHint_plain_fields:
  "PlainHint.coordinates (newHint_plain render ps isRow sh index coord)
     = (if isRow then \<lparr>column = real index, row = coord\<rparr> else \<lparr>column = coord, row = real index\<rparr>)"
  "PlainHint.key (newHint_plain render ps isRow sh index coord)
     = stringifyCoordinates render (PlainHint.coordinates (newHint_plain render ps isRow sh index coord))"
  "PlainHint.shape (newHint_plain render ps isRow sh index coord) = sh"
  "PlainHint.content (newHint_plain render ps isRow sh index coord)
     = getValueCount ps (if isRow then Row else Column) coord sh"
  by (simp_all add: newHint_plain_def Let_def getRowTally_plain_def getColumnTally_def
        getTally_def getValueCount_def)

lemma generateHints_loop_plain_all:
  assumes "\<forall>h \<in> set hs. P h" and "\<And>coord. P (newHint_plain render ps isRow sh index coord)"
  shows "\<forall>h \<in> set (generateHints_loop_plain render ps isRow sh index tot coord hs). P h"
  using assms
proof (induction render ps isRow sh index tot coord hs rule: generateHints_loop_plain.induct)
  case (1 render ps isRow sh index tot coord hs)
  show ?case
  proof (cases "coord < tot")
    case True
    have "\<forall>h \<in> set (hs @ [newHint_plain render ps isRow sh index coord]). P h"
      using 1(2) 1(3) by simp
    from 1(1) [OF True this 1(3)] True show ?thesis
      by (subst generateHints_loop_plain.simps) simp
  next
    case False
    with 1(2) show ?thesis by (subst generateHints_loop_plain.simps) simp
  qed
qed

lemma generateHints_impl_plain_all:
  assumes "\<And>sh index coord. P (newHint_plain render ps isRow sh index coord)"
  shows "\<forall>h \<in> set (generateHints_impl_plain render ps tot start isRow). P h"
proof -
  have e: "\<forall>h \<in> set ([] :: PlainHint list). P h" by simp
  note a = generateHints_loop_plain_all [where P = P, OF _ assms]
  show ?thesis
    unfolding generateHints_impl_plain_def shapes_indexed fold_simps prod.case
    by (intro a e)
qed

lemma getValueCount_card:
  "getValueCount ps ax n sh
     = card {i. i < length ps \<and> axisOf ax (PuzzlePiece.coordinates (ps ! i)) = n \<and> value (ps ! i) = sh}"
  unfolding getValueCount_def length_filter_conv_card
  by (rule arg_cong [where f = card]) auto

lemma getSelectedCount_card:
  "getSelectedCount ps ax n sh
     = card {i. i < length ps \<and> axisOf ax (PuzzlePiece.coordinates (ps ! i)) = n
                \<and> selectedValue (ps ! i) = Sel sh}"
  unfolding getSelectedCount_def length_filter_conv_card
  by (rule arg_cong [where f = card]) auto

text \<open>
  C2.  The tally by value, of either container, is the number of pieces whose coordinate
  on the given axis is the given line coordinate and whose \<^verbatim>\<open>value\<close> is the given shape.
  The content of every generated hint is the number of pieces whose coordinate on
  the hint's axis is the hint's line coordinate and whose \<^verbatim>\<open>value\<close> (the ground truth, not
  \<^verbatim>\<open>selectedValue\<close>) is the hint's shape.  This holds for the column and the row hints of
  the container with assist, whatever \<^verbatim>\<open>enableAssist\<close> is, and for those of the
  containers without assist.
\<close>

theorem hint_content_is_value_count:
  "getValueCount ps ax m sh
     = card {i. i < length ps \<and> axisOf ax (PuzzlePiece.coordinates (ps ! i)) = m \<and> value (ps ! i) = sh}
 \<and> getTally ps ax m sh
     = card {i. i < length ps \<and> axisOf ax (PuzzlePiece.coordinates (ps ! i)) = m \<and> value (ps ! i) = sh}
 \<and> (\<forall>h \<in> set (generateColumnHints render st). PuzzleHint.content h
      = card {i. i < length (pieces st)
               \<and> column (PuzzlePiece.coordinates (pieces st ! i)) = column (PuzzleHint.coordinates h)
               \<and> value (pieces st ! i) = PuzzleHint.shape h})
 \<and> (\<forall>h \<in> set (generateRowHints render st). PuzzleHint.content h
      = card {i. i < length (pieces st)
               \<and> row (PuzzlePiece.coordinates (pieces st ! i)) = row (PuzzleHint.coordinates h)
               \<and> value (pieces st ! i) = PuzzleHint.shape h})
 \<and> (\<forall>h \<in> set (generateColumnHints_plain render st). PlainHint.content h
      = card {i. i < length (pieces st)
               \<and> column (PuzzlePiece.coordinates (pieces st ! i)) = column (PlainHint.coordinates h)
               \<and> value (pieces st ! i) = PlainHint.shape h})
 \<and> (\<forall>h \<in> set (generateRowHints_plain render st). PlainHint.content h
      = card {i. i < length (pieces st)
               \<and> row (PuzzlePiece.coordinates (pieces st ! i)) = row (PlainHint.coordinates h)
               \<and> value (pieces st ! i) = PlainHint.shape h})"
proof (intro conjI)
  show "getValueCount ps ax m sh
     = card {i. i < length ps \<and> axisOf ax (PuzzlePiece.coordinates (ps ! i)) = m \<and> value (ps ! i) = sh}"
    by (rule getValueCount_card)
  show "getTally ps ax m sh
     = card {i. i < length ps \<and> axisOf ax (PuzzlePiece.coordinates (ps ! i)) = m \<and> value (ps ! i) = sh}"
    using getValueCount_card [of ps ax m sh] by (simp add: getTally_def getValueCount_def)
  show "\<forall>h \<in> set (generateColumnHints render st). PuzzleHint.content h
      = card {i. i < length (pieces st)
               \<and> column (PuzzlePiece.coordinates (pieces st ! i)) = column (PuzzleHint.coordinates h)
               \<and> value (pieces st ! i) = PuzzleHint.shape h}"
    unfolding generateColumnHints_def
    by (rule generateHints_impl_all) (simp add: newHint_fields getValueCount_card)
  show "\<forall>h \<in> set (generateRowHints render st). PuzzleHint.content h
      = card {i. i < length (pieces st)
               \<and> row (PuzzlePiece.coordinates (pieces st ! i)) = row (PuzzleHint.coordinates h)
               \<and> value (pieces st ! i) = PuzzleHint.shape h}"
    unfolding generateRowHints_def
    by (rule generateHints_impl_all) (simp add: newHint_fields getValueCount_card)
  show "\<forall>h \<in> set (generateColumnHints_plain render st). PlainHint.content h
      = card {i. i < length (pieces st)
               \<and> column (PuzzlePiece.coordinates (pieces st ! i)) = column (PlainHint.coordinates h)
               \<and> value (pieces st ! i) = PlainHint.shape h}"
    unfolding generateColumnHints_plain_def
    by (rule generateHints_impl_plain_all) (simp add: newHint_plain_fields getValueCount_card)
  show "\<forall>h \<in> set (generateRowHints_plain render st). PlainHint.content h
      = card {i. i < length (pieces st)
               \<and> row (PuzzlePiece.coordinates (pieces st ! i)) = row (PlainHint.coordinates h)
               \<and> value (pieces st ! i) = PlainHint.shape h}"
    unfolding generateRowHints_plain_def
    by (rule generateHints_impl_plain_all) (simp add: newHint_plain_fields getValueCount_card)
qed

lemma fills_differ: "COMPLETE_HINT \<noteq> INCOMPLETE_HINT"
  by (simp add: COMPLETE_HINT_def INCOMPLETE_HINT_def)

text \<open>
  C8.  The selected count is the number of pieces on the given line whose
  \<^verbatim>\<open>selectedValue\<close> is the given shape.  The fill of every generated hint is
  \<^verbatim>\<open>COMPLETE_HINT\<close> if, on the hint's line, the number of pieces whose \<^verbatim>\<open>value\<close> is the
  hint's shape equals the number of pieces whose \<^verbatim>\<open>selectedValue\<close> is that shape, and
  \<^verbatim>\<open>enableAssist\<close> is set; it is \<^verbatim>\<open>INCOMPLETE_HINT\<close> (a different colour) otherwise.  So
  with \<^verbatim>\<open>enableAssist\<close> off every hint has the incomplete fill.
\<close>

theorem hint_fill_complete_iff:
  "getSelectedCount ps ax m sh
     = card {i. i < length ps \<and> axisOf ax (PuzzlePiece.coordinates (ps ! i)) = m
                \<and> selectedValue (ps ! i) = Sel sh}
 \<and> (\<forall>h \<in> set (generateColumnHints render st).
      PuzzleHint.fill h
        = (if card {i. i < length (pieces st)
                     \<and> column (PuzzlePiece.coordinates (pieces st ! i)) = column (PuzzleHint.coordinates h)
                     \<and> value (pieces st ! i) = PuzzleHint.shape h}
              = card {i. i < length (pieces st)
                     \<and> column (PuzzlePiece.coordinates (pieces st ! i)) = column (PuzzleHint.coordinates h)
                     \<and> selectedValue (pieces st ! i) = Sel (PuzzleHint.shape h)}
              \<and> enableAssist st
           then COMPLETE_HINT else INCOMPLETE_HINT))
 \<and> (\<forall>h \<in> set (generateRowHints render st).
      PuzzleHint.fill h
        = (if card {i. i < length (pieces st)
                     \<and> row (PuzzlePiece.coordinates (pieces st ! i)) = row (PuzzleHint.coordinates h)
                     \<and> value (pieces st ! i) = PuzzleHint.shape h}
              = card {i. i < length (pieces st)
                     \<and> row (PuzzlePiece.coordinates (pieces st ! i)) = row (PuzzleHint.coordinates h)
                     \<and> selectedValue (pieces st ! i) = Sel (PuzzleHint.shape h)}
              \<and> enableAssist st
           then COMPLETE_HINT else INCOMPLETE_HINT))
 \<and> (\<not> enableAssist st \<longrightarrow>
       (\<forall>h \<in> set (hints (generateHints render st)). PuzzleHint.fill h = INCOMPLETE_HINT))
 \<and> COMPLETE_HINT \<noteq> INCOMPLETE_HINT"
proof (intro conjI impI)
  show "getSelectedCount ps ax m sh
     = card {i. i < length ps \<and> axisOf ax (PuzzlePiece.coordinates (ps ! i)) = m
                \<and> selectedValue (ps ! i) = Sel sh}"
    by (rule getSelectedCount_card)
  show c: "\<forall>h \<in> set (generateColumnHints render st).
      PuzzleHint.fill h
        = (if card {i. i < length (pieces st)
                     \<and> column (PuzzlePiece.coordinates (pieces st ! i)) = column (PuzzleHint.coordinates h)
                     \<and> value (pieces st ! i) = PuzzleHint.shape h}
              = card {i. i < length (pieces st)
                     \<and> column (PuzzlePiece.coordinates (pieces st ! i)) = column (PuzzleHint.coordinates h)
                     \<and> selectedValue (pieces st ! i) = Sel (PuzzleHint.shape h)}
              \<and> enableAssist st
           then COMPLETE_HINT else INCOMPLETE_HINT)"
    unfolding generateColumnHints_def
    by (rule generateHints_impl_all)
       (simp add: newHint_fields getValueCount_card getSelectedCount_card)
  show r: "\<forall>h \<in> set (generateRowHints render st).
      PuzzleHint.fill h
        = (if card {i. i < length (pieces st)
                     \<and> row (PuzzlePiece.coordinates (pieces st ! i)) = row (PuzzleHint.coordinates h)
                     \<and> value (pieces st ! i) = PuzzleHint.shape h}
              = card {i. i < length (pieces st)
                     \<and> row (PuzzlePiece.coordinates (pieces st ! i)) = row (PuzzleHint.coordinates h)
                     \<and> selectedValue (pieces st ! i) = Sel (PuzzleHint.shape h)}
              \<and> enableAssist st
           then COMPLETE_HINT else INCOMPLETE_HINT)"
    unfolding generateRowHints_def
    by (rule generateHints_impl_all)
       (simp add: newHint_fields getValueCount_card getSelectedCount_card)
  show "COMPLETE_HINT \<noteq> INCOMPLETE_HINT" by (rule fills_differ)
  assume "\<not> enableAssist st"
  with c r show "\<forall>h \<in> set (hints (generateHints render st)). PuzzleHint.fill h = INCOMPLETE_HINT"
    by (auto simp: generateHints_def)
qed

lemma generateHints_loop_plain_eq:
  "generateHints_loop_plain render ps isRow sh index (real t) (real s) hs
     = hs @ map (\<lambda>j. newHint_plain render ps isRow sh index (real j)) [s ..< t]"
proof (induction "t - s" arbitrary: s hs)
  case 0
  then have n: "\<not> s < t" by arith
  then show ?case by (subst generateHints_loop_plain.simps) simp
next
  case (Suc k)
  then have lt: "s < t" by arith
  have k: "k = t - (s + 1)" using Suc(2) by arith
  have s1: "real s + 1 = real (s + 1)" by simp
  have "generateHints_loop_plain render ps isRow sh index (real t) (real s) hs
      = generateHints_loop_plain render ps isRow sh index (real t) (real (s + 1))
          (hs @ [newHint_plain render ps isRow sh index (real s)])"
    using lt by (subst generateHints_loop_plain.simps) (simp only: s1 hint_guard if_True)
  also have "\<dots> = (hs @ [newHint_plain render ps isRow sh index (real s)])
                 @ map (\<lambda>j. newHint_plain render ps isRow sh index (real j)) [s + 1 ..< t]"
    by (rule Suc(1) [OF k])
  also have "\<dots> = hs @ map (\<lambda>j. newHint_plain render ps isRow sh index (real j)) [s ..< t]"
    using lt by (simp add: upt_conv_Cons)
  finally show ?case .
qed

lemma generateHints_impl_plain_eq:
  "generateHints_impl_plain render ps (real t) (real s) isRow
     = concat (map (\<lambda>(sh, index). map (\<lambda>j. newHint_plain render ps isRow sh index (real j)) [s ..< t])
         (zip SHAPES [0 ..< length SHAPES]))"
  unfolding generateHints_impl_plain_def shapes_indexed
  by (simp add: generateHints_loop_plain_eq)

lemma generateColumnHints_plain_eq:
  assumes "columns st = real c"
  shows "generateColumnHints_plain render st
     = concat (map (\<lambda>(sh, index). map (\<lambda>j. newHint_plain render (pieces st) False sh index (real j)) [3 ..< 3 + c])
         (zip SHAPES [0 ..< length SHAPES]))"
proof -
  have "columns st + real (length SHAPES) = real (3 + c)" "real (length SHAPES) = real 3"
    using assms by (simp_all add: SHAPES_def)
  then show ?thesis
    unfolding generateColumnHints_plain_def by (simp only: generateHints_impl_plain_eq)
qed

subsection \<open>The example grid\<close>

lemma example_fields:
  "pieces exampleContainer = examplePieces" "enableAssist exampleContainer"
  "rows exampleContainer = 1" "columns exampleContainer = 2"
  "pieces (exampleContainer\<lparr>enableAssist := False\<rparr>) = examplePieces"
  "\<not> enableAssist (exampleContainer\<lparr>enableAssist := False\<rparr>)"
  "rows (exampleContainer\<lparr>enableAssist := False\<rparr>) = 1"
  "columns (exampleContainer\<lparr>enableAssist := False\<rparr>) = 2"
  by (simp_all add: exampleContainer_def)

lemma example_rowHints:
  "generateRowHints render exampleContainer
     = [newHint render exampleContainer True circle 0 3,
        newHint render exampleContainer True square 1 3,
        newHint render exampleContainer True triangle 2 3]"
proof -
  have "rows exampleContainer = real 1" by (simp add: example_fields)
  from generateRowHints_eq [OF this] show ?thesis
    by (simp add: shapes_indexed)
qed

lemma example_hints_length:
  "length (hints (generateHints render (exampleContainer\<lparr>enableAssist := False\<rparr>))) = 9"
proof -
  let ?off = "exampleContainer\<lparr>enableAssist := False\<rparr>"
  have r: "rows ?off = real 1" and c: "columns ?off = real 2" by (simp_all add: example_fields)
  show ?thesis
    unfolding generateHints_def generateRowHints_eq [OF r] generateColumnHints_eq [OF c]
    by (simp add: shapes_indexed)
qed

lemma example_counts:
  "getValueCount examplePieces Row 3 circle = 1"
  "getValueCount examplePieces Row 3 square = 1"
  "getValueCount examplePieces Row 3 triangle = 0"
  "getSelectedCount examplePieces Row 3 circle = 0"
  "getSelectedCount examplePieces Row 3 square = 2"
  "getSelectedCount examplePieces Row 3 triangle = 0"
  "getValueCount examplePieces Column 4 square = 1"
  by (simp_all add: getValueCount_def getSelectedCount_def examplePieces_def)

lemma example_columnHints_plain:
  "generateColumnHints_plain render exampleContainer
     = [newHint_plain render examplePieces False circle 0 3,
        newHint_plain render examplePieces False circle 0 4,
        newHint_plain render examplePieces False square 1 3,
        newHint_plain render examplePieces False square 1 4,
        newHint_plain render examplePieces False triangle 2 3,
        newHint_plain render examplePieces False triangle 2 4]"
proof -
  have "columns exampleContainer = real 2" by (simp add: example_fields)
  from generateColumnHints_plain_eq [OF this] show ?thesis
    by (simp add: shapes_indexed example_fields upt_conv_Cons)
qed

theorem hint_content_is_value_count_witness:
  "let h = generateRowHints noRender exampleContainer ! 0;
       g = generateColumnHints_plain noRender exampleContainer ! 3
   in h \<in> set (generateRowHints noRender exampleContainer)
    \<and> PuzzleHint.content h = 1
    \<and> card {i. i < length (pieces exampleContainer)
               \<and> row (PuzzlePiece.coordinates (pieces exampleContainer ! i)) = row (PuzzleHint.coordinates h)
               \<and> value (pieces exampleContainer ! i) = PuzzleHint.shape h} = 1
    \<and> g \<in> set (generateColumnHints_plain noRender exampleContainer)
    \<and> PlainHint.content g = 1
    \<and> card {i. i < length (pieces exampleContainer)
               \<and> column (PuzzlePiece.coordinates (pieces exampleContainer ! i)) = column (PlainHint.coordinates g)
               \<and> value (pieces exampleContainer ! i) = PlainHint.shape g} = 1"
proof -
  let ?hs = "generateRowHints noRender exampleContainer"
  let ?gs = "generateColumnHints_plain noRender exampleContainer"
  have m: "?hs ! 0 \<in> set ?hs" by (simp add: example_rowHints)
  have m': "?gs ! 3 \<in> set ?gs" by (simp add: example_columnHints_plain)
  have c: "PuzzleHint.content (?hs ! 0) = 1"
    by (simp add: example_rowHints newHint_fields example_counts example_fields)
  have c': "PlainHint.content (?gs ! 3) = 1"
    by (simp add: example_columnHints_plain newHint_plain_fields example_counts)
  note t = hint_content_is_value_count [where render = noRender and st = exampleContainer]
  from t m
  have "PuzzleHint.content (?hs ! 0)
      = card {i. i < length (pieces exampleContainer)
               \<and> row (PuzzlePiece.coordinates (pieces exampleContainer ! i)) = row (PuzzleHint.coordinates (?hs ! 0))
               \<and> value (pieces exampleContainer ! i) = PuzzleHint.shape (?hs ! 0)}"
    by blast
  moreover from t m'
  have "PlainHint.content (?gs ! 3)
      = card {i. i < length (pieces exampleContainer)
               \<and> column (PuzzlePiece.coordinates (pieces exampleContainer ! i)) = column (PlainHint.coordinates (?gs ! 3))
               \<and> value (pieces exampleContainer ! i) = PlainHint.shape (?gs ! 3)}"
    by blast
  ultimately show ?thesis unfolding Let_def using m m' c c' by simp
qed

lemma example_columnHints:
  "generateColumnHints render exampleContainer
     = [newHint render exampleContainer False circle 0 3,
        newHint render exampleContainer False circle 0 4,
        newHint render exampleContainer False square 1 3,
        newHint render exampleContainer False square 1 4,
        newHint render exampleContainer False triangle 2 3,
        newHint render exampleContainer False triangle 2 4]"
proof -
  have "columns exampleContainer = real 2" by (simp add: example_fields)
  from generateColumnHints_eq [OF this] show ?thesis
    by (simp add: shapes_indexed upt_conv_Cons)
qed

lemma example_columnHints_off:
  "hints (generateHints render (exampleContainer\<lparr>enableAssist := False\<rparr>)) ! 3
     = newHint render (exampleContainer\<lparr>enableAssist := False\<rparr>) False square 1 4"
proof -
  let ?off = "exampleContainer\<lparr>enableAssist := False\<rparr>"
  have "columns ?off = real 2" by (simp add: example_fields)
  from generateColumnHints_eq [OF this] show ?thesis
    by (simp add: generateHints_def shapes_indexed upt_conv_Cons)
qed

lemma example_column_cards:
  "card {i. i < length examplePieces \<and> column (PuzzlePiece.coordinates (examplePieces ! i)) = 4
            \<and> value (examplePieces ! i) = square} = 1"
  "card {i. i < length examplePieces \<and> column (PuzzlePiece.coordinates (examplePieces ! i)) = 4
            \<and> selectedValue (examplePieces ! i) = Sel square} = 1"
  "card {i. i < length examplePieces \<and> column (PuzzlePiece.coordinates (examplePieces ! i)) = 3
            \<and> value (examplePieces ! i) = circle} = 1"
  "card {i. i < length examplePieces \<and> column (PuzzlePiece.coordinates (examplePieces ! i)) = 3
            \<and> selectedValue (examplePieces ! i) = Sel circle} = 0"
  "card {i. i < length examplePieces \<and> column (PuzzlePiece.coordinates (examplePieces ! i)) = 3
            \<and> value (examplePieces ! i) = square} = 0"
  "card {i. i < length examplePieces \<and> column (PuzzlePiece.coordinates (examplePieces ! i)) = 3
            \<and> selectedValue (examplePieces ! i) = Sel square} = 1"
proof -
  have v: "getValueCount examplePieces Column 4 square = 1"
          "getValueCount examplePieces Column 3 circle = 1"
          "getValueCount examplePieces Column 3 square = 0"
    and s: "getSelectedCount examplePieces Column 4 square = 1"
           "getSelectedCount examplePieces Column 3 circle = 0"
           "getSelectedCount examplePieces Column 3 square = 1"
    by (simp_all add: getValueCount_def getSelectedCount_def examplePieces_def)
  show "card {i. i < length examplePieces \<and> column (PuzzlePiece.coordinates (examplePieces ! i)) = 4
            \<and> value (examplePieces ! i) = square} = 1"
    using getValueCount_card [of examplePieces Column 4 square] v by simp
  show "card {i. i < length examplePieces \<and> column (PuzzlePiece.coordinates (examplePieces ! i)) = 4
            \<and> selectedValue (examplePieces ! i) = Sel square} = 1"
    using getSelectedCount_card [of examplePieces Column 4 square] s by simp
  show "card {i. i < length examplePieces \<and> column (PuzzlePiece.coordinates (examplePieces ! i)) = 3
            \<and> value (examplePieces ! i) = circle} = 1"
    using getValueCount_card [of examplePieces Column 3 circle] v by simp
  show "card {i. i < length examplePieces \<and> column (PuzzlePiece.coordinates (examplePieces ! i)) = 3
            \<and> selectedValue (examplePieces ! i) = Sel circle} = 0"
    using getSelectedCount_card [of examplePieces Column 3 circle] s by simp
  show "card {i. i < length examplePieces \<and> column (PuzzlePiece.coordinates (examplePieces ! i)) = 3
            \<and> value (examplePieces ! i) = square} = 0"
    using getValueCount_card [of examplePieces Column 3 square] v by simp
  show "card {i. i < length examplePieces \<and> column (PuzzlePiece.coordinates (examplePieces ! i)) = 3
            \<and> selectedValue (examplePieces ! i) = Sel square} = 1"
    using getSelectedCount_card [of examplePieces Column 3 square] s by simp
qed

theorem hint_fill_complete_iff_witness:
  "let hs = generateColumnHints noRender exampleContainer;
       off = exampleContainer\<lparr>enableAssist := False\<rparr>;
       gs = hints (generateHints noRender off);
       ps = pieces exampleContainer
   in enableAssist exampleContainer
    \<and> hs ! 3 \<in> set hs
    \<and> PuzzleHint.shape (hs ! 3) = square \<and> column (PuzzleHint.coordinates (hs ! 3)) = 4
    \<and> card {i. i < length ps \<and> column (PuzzlePiece.coordinates (ps ! i)) = 4
               \<and> value (ps ! i) = square} = 1
    \<and> card {i. i < length ps \<and> column (PuzzlePiece.coordinates (ps ! i)) = 4
               \<and> selectedValue (ps ! i) = Sel square} = 1
    \<and> PuzzleHint.fill (hs ! 3) = COMPLETE_HINT
    \<and> hs ! 0 \<in> set hs
    \<and> PuzzleHint.shape (hs ! 0) = circle \<and> column (PuzzleHint.coordinates (hs ! 0)) = 3
    \<and> card {i. i < length ps \<and> column (PuzzlePiece.coordinates (ps ! i)) = 3
               \<and> value (ps ! i) = circle} = 1
    \<and> card {i. i < length ps \<and> column (PuzzlePiece.coordinates (ps ! i)) = 3
               \<and> selectedValue (ps ! i) = Sel circle} = 0
    \<and> PuzzleHint.fill (hs ! 0) = INCOMPLETE_HINT
    \<and> hs ! 2 \<in> set hs
    \<and> PuzzleHint.shape (hs ! 2) = square \<and> column (PuzzleHint.coordinates (hs ! 2)) = 3
    \<and> card {i. i < length ps \<and> column (PuzzlePiece.coordinates (ps ! i)) = 3
               \<and> value (ps ! i) = square} = 0
    \<and> card {i. i < length ps \<and> column (PuzzlePiece.coordinates (ps ! i)) = 3
               \<and> selectedValue (ps ! i) = Sel square} = 1
    \<and> PuzzleHint.fill (hs ! 2) = INCOMPLETE_HINT
    \<and> \<not> enableAssist off
    \<and> gs ! 3 \<in> set gs
    \<and> PuzzleHint.shape (gs ! 3) = square \<and> column (PuzzleHint.coordinates (gs ! 3)) = 4
    \<and> PuzzleHint.fill (gs ! 3) = INCOMPLETE_HINT"
proof -
  let ?hs = "generateColumnHints noRender exampleContainer"
  let ?off = "exampleContainer\<lparr>enableAssist := False\<rparr>"
  let ?gs = "hints (generateHints noRender ?off)"
  have p: "pieces exampleContainer = examplePieces" by (simp add: example_fields)
  have a: "enableAssist exampleContainer" "\<not> enableAssist ?off"
    by (simp_all add: example_fields)
  have m: "?hs ! 3 \<in> set ?hs" "?hs ! 0 \<in> set ?hs" "?hs ! 2 \<in> set ?hs"
    by (simp_all add: example_columnHints)
  have f3: "PuzzleHint.shape (?hs ! 3) = square" "column (PuzzleHint.coordinates (?hs ! 3)) = 4"
    and f0: "PuzzleHint.shape (?hs ! 0) = circle" "column (PuzzleHint.coordinates (?hs ! 0)) = 3"
    and f2: "PuzzleHint.shape (?hs ! 2) = square" "column (PuzzleHint.coordinates (?hs ! 2)) = 3"
    by (simp_all add: example_columnHints newHint_fields)
  have l: "?gs ! 3 \<in> set ?gs"
    by (rule nth_mem) (simp add: example_hints_length)
  have g3: "PuzzleHint.shape (?gs ! 3) = square" "column (PuzzleHint.coordinates (?gs ! 3)) = 4"
    by (simp_all add: example_columnHints_off newHint_fields)
  note t = hint_fill_complete_iff [where render = noRender and st = exampleContainer]
  note u = hint_fill_complete_iff [where render = noRender and st = ?off]
  from t m(1) have "PuzzleHint.fill (?hs ! 3)
        = (if card {i. i < length (pieces exampleContainer)
                     \<and> column (PuzzlePiece.coordinates (pieces exampleContainer ! i)) = column (PuzzleHint.coordinates (?hs ! 3))
                     \<and> value (pieces exampleContainer ! i) = PuzzleHint.shape (?hs ! 3)}
              = card {i. i < length (pieces exampleContainer)
                     \<and> column (PuzzlePiece.coordinates (pieces exampleContainer ! i)) = column (PuzzleHint.coordinates (?hs ! 3))
                     \<and> selectedValue (pieces exampleContainer ! i) = Sel (PuzzleHint.shape (?hs ! 3))}
              \<and> enableAssist exampleContainer
           then COMPLETE_HINT else INCOMPLETE_HINT)"
    by blast
  then have c3: "PuzzleHint.fill (?hs ! 3) = COMPLETE_HINT"
    unfolding f3 p example_column_cards using a by simp
  from t m(2) have "PuzzleHint.fill (?hs ! 0)
        = (if card {i. i < length (pieces exampleContainer)
                     \<and> column (PuzzlePiece.coordinates (pieces exampleContainer ! i)) = column (PuzzleHint.coordinates (?hs ! 0))
                     \<and> value (pieces exampleContainer ! i) = PuzzleHint.shape (?hs ! 0)}
              = card {i. i < length (pieces exampleContainer)
                     \<and> column (PuzzlePiece.coordinates (pieces exampleContainer ! i)) = column (PuzzleHint.coordinates (?hs ! 0))
                     \<and> selectedValue (pieces exampleContainer ! i) = Sel (PuzzleHint.shape (?hs ! 0))}
              \<and> enableAssist exampleContainer
           then COMPLETE_HINT else INCOMPLETE_HINT)"
    by blast
  then have c0: "PuzzleHint.fill (?hs ! 0) = INCOMPLETE_HINT"
    unfolding f0 p example_column_cards by simp
  from t m(3) have "PuzzleHint.fill (?hs ! 2)
        = (if card {i. i < length (pieces exampleContainer)
                     \<and> column (PuzzlePiece.coordinates (pieces exampleContainer ! i)) = column (PuzzleHint.coordinates (?hs ! 2))
                     \<and> value (pieces exampleContainer ! i) = PuzzleHint.shape (?hs ! 2)}
              = card {i. i < length (pieces exampleContainer)
                     \<and> column (PuzzlePiece.coordinates (pieces exampleContainer ! i)) = column (PuzzleHint.coordinates (?hs ! 2))
                     \<and> selectedValue (pieces exampleContainer ! i) = Sel (PuzzleHint.shape (?hs ! 2))}
              \<and> enableAssist exampleContainer
           then COMPLETE_HINT else INCOMPLETE_HINT)"
    by blast
  then have c2: "PuzzleHint.fill (?hs ! 2) = INCOMPLETE_HINT"
    unfolding f2 p example_column_cards by simp
  from u a(2) l have d: "PuzzleHint.fill (?gs ! 3) = INCOMPLETE_HINT"
    by blast
  show ?thesis
    unfolding Let_def p
    using a m f3 f0 f2 c3 c0 c2 l g3 d example_column_cards by (intro conjI)
qed

subsection \<open>Validity and reset\<close>

lemma checkValidity_all:
  "checkValidity st = (\<forall>p \<in> set (pieces st). selectedValue p = Sel (value p))"
  by (auto simp: checkValidity_def list_ex_iff)

lemma generated_pieces:
  "pieces (generatePieces render random st)
     = map (pieceAt render (columns st) random) [0 ..< nat \<lceil>columns st * rows st\<rceil>]"
  by (simp add: generatePieces_def generatePieces_impl_eq)

text \<open>
  C4.  \<^verbatim>\<open>checkValidity\<close> is true iff the \<^verbatim>\<open>selectedValue\<close> of every piece is its
  \<^verbatim>\<open>value\<close>.  Every generated piece has its value selected if it is revealed and the
  empty selection if it is not; so right after \<^verbatim>\<open>generatePieces\<close>, \<^verbatim>\<open>checkValidity\<close> is
  true iff every generated piece is revealed.
\<close>

theorem checkValidity_after_generatePieces:
  "(checkValidity st \<longleftrightarrow> (\<forall>p \<in> set (pieces st). selectedValue p = Sel (value p)))
 \<and> (\<forall>p \<in> set (pieces (generatePieces render random st)).
        selectedValue p = (if revealed p then Sel (value p) else Empty))
 \<and> (checkValidity (generatePieces render random st)
        \<longleftrightarrow> (\<forall>p \<in> set (pieces (generatePieces render random st)). revealed p))"
proof -
  let ?g = "generatePieces render random st"
  have sel: "\<forall>p \<in> set (pieces ?g). selectedValue p = (if revealed p then Sel (value p) else Empty)"
    unfolding generated_pieces using pieceAt_selectedValue by auto
  have "checkValidity ?g \<longleftrightarrow> (\<forall>p \<in> set (pieces ?g). revealed p)"
  proof
    assume v: "checkValidity ?g"
    show "\<forall>p \<in> set (pieces ?g). revealed p"
    proof
      fix p assume p: "p \<in> set (pieces ?g)"
      with v have "selectedValue p = Sel (value p)" by (simp add: checkValidity_all)
      moreover from sel p have "selectedValue p = (if revealed p then Sel (value p) else Empty)"
        by blast
      ultimately show "revealed p" by (cases "revealed p") simp_all
    qed
  next
    assume "\<forall>p \<in> set (pieces ?g). revealed p"
    with sel show "checkValidity ?g" by (simp add: checkValidity_all)
  qed
  with sel checkValidity_all [of st] show ?thesis by blast
qed

lemma example_generated:
  "pieces (generatePieces noRender (constRandom q) (set_rows 1 (set_columns 2 initialContainer)))
     = [pieceAt noRender 2 (constRandom q) 0, pieceAt noRender 2 (constRandom q) 1]"
  using pieces_grid [of noRender "constRandom q" 1 2 initialContainer]
  by (simp add: upt_conv_Cons)

lemma example_revealed:
  "revealed (pieceAt render cols (constRandom q) i) = (1 / 2 < q)"
  by (simp add: pieceAt_def newPiece_def Let_def constRandom_def REVEAL_PROBABILITY_def)

theorem checkValidity_after_generatePieces_witness:
  "checkValidity (generatePieces noRender (constRandom (3 / 4))
                   (set_rows 1 (set_columns 2 initialContainer)))
 \<and> \<not> checkValidity (generatePieces noRender (constRandom (1 / 4))
                   (set_rows 1 (set_columns 2 initialContainer)))"
proof -
  let ?st = "set_rows 1 (set_columns 2 initialContainer)"
  have a: "\<forall>p \<in> set (pieces (generatePieces noRender (constRandom (3 / 4)) ?st)). revealed p"
    by (simp add: example_generated example_revealed)
  have b: "\<not> (\<forall>p \<in> set (pieces (generatePieces noRender (constRandom (1 / 4)) ?st)). revealed p)"
    by (simp add: example_generated example_revealed)
  from a checkValidity_after_generatePieces [of ?st noRender "constRandom (3 / 4)"]
  have "checkValidity (generatePieces noRender (constRandom (3 / 4)) ?st)" by blast
  moreover from b checkValidity_after_generatePieces [of ?st noRender "constRandom (1 / 4)"]
  have "\<not> checkValidity (generatePieces noRender (constRandom (1 / 4)) ?st)" by blast
  ultimately show ?thesis by blast
qed

lemma pieces_generateHints: "pieces (generateHints render st) = pieces st"
  by (simp add: generateHints_def)

lemma pieces_reset:
  "pieces (reset render st)
     = map (\<lambda>p. if \<not> revealed p then p\<lparr>selectedValue := Empty\<rparr> else p) (pieces st)"
  by (simp add: reset_def Let_def pieces_generateHints)

text \<open>
  C7.  \<^verbatim>\<open>reset\<close> keeps the number and the order of the pieces.  After it, every piece
  that is not revealed has the empty selection, every revealed piece is as it was, and
  in every piece the key, the coordinates, the value, the revealed flag and the fill
  are as they were.
\<close>

theorem reset_frame:
  "length (pieces (reset render st)) = length (pieces st)
 \<and> (\<forall>i < length (pieces st).
       let p = pieces st ! i; q = pieces (reset render st) ! i
       in (\<not> revealed p \<longrightarrow> selectedValue q = Empty)
        \<and> (revealed p \<longrightarrow> q = p)
        \<and> PuzzlePiece.key q = PuzzlePiece.key p
        \<and> PuzzlePiece.coordinates q = PuzzlePiece.coordinates p
        \<and> value q = value p
        \<and> revealed q = revealed p
        \<and> PuzzlePiece.fill q = PuzzlePiece.fill p)"
  by (simp add: pieces_reset Let_def)

theorem reset_frame_witness:
  "length (pieces (reset noRender exampleContainer)) = 2
 \<and> \<not> revealed (pieces exampleContainer ! 0)
 \<and> selectedValue (pieces exampleContainer ! 0) = Sel square
 \<and> selectedValue (pieces (reset noRender exampleContainer) ! 0) = Empty
 \<and> value (pieces (reset noRender exampleContainer) ! 0) = circle
 \<and> revealed (pieces exampleContainer ! 1)
 \<and> pieces (reset noRender exampleContainer) ! 1 = pieces exampleContainer ! 1"
proof -
  have p: "pieces exampleContainer = examplePieces" by (simp add: example_fields)
  have f: "\<not> revealed (examplePieces ! 0)" "revealed (examplePieces ! 1)"
          "selectedValue (examplePieces ! 0) = Sel square" "value (examplePieces ! 0) = circle"
          "length examplePieces = 2"
    by (simp_all add: examplePieces_def)
  from reset_frame [of noRender exampleContainer]
  have l: "length (pieces (reset noRender exampleContainer)) = 2"
    and a: "\<forall>i < 2.
       let p = examplePieces ! i; q = pieces (reset noRender exampleContainer) ! i
       in (\<not> revealed p \<longrightarrow> selectedValue q = Empty)
        \<and> (revealed p \<longrightarrow> q = p)
        \<and> PuzzlePiece.key q = PuzzlePiece.key p
        \<and> PuzzlePiece.coordinates q = PuzzlePiece.coordinates p
        \<and> value q = value p
        \<and> revealed q = revealed p
        \<and> PuzzlePiece.fill q = PuzzlePiece.fill p"
    unfolding p f(5) by blast+
  from a have "selectedValue (pieces (reset noRender exampleContainer) ! 0) = Empty"
    and "value (pieces (reset noRender exampleContainer) ! 0) = circle"
    and "pieces (reset noRender exampleContainer) ! 1 = examplePieces ! 1"
    using f unfolding Let_def by (auto dest: spec [of _ 0] spec [of _ 1])
  with l f show ?thesis unfolding p by simp
qed

subsection \<open>Clicks\<close>

lemma find_updateFirst:
  "List.find P xs = Some x \<Longrightarrow> P (f x) \<Longrightarrow> List.find P (updateFirst P f xs) = Some (f x)"
  by (induction xs) (auto split: if_splits)

lemma selectable_next:
  assumes "i < 4"
  shows "SELECTABLE_VALUES ! nat ((indexOf SELECTABLE_VALUES (SELECTABLE_VALUES ! i) + 1)
                                   mod int (length SELECTABLE_VALUES))
       = SELECTABLE_VALUES ! (Suc i mod 4)"
proof -
  from assms consider "i = 0" | "i = 1" | "i = 2" | "i = 3" by arith
  then show ?thesis
    by cases (simp_all add: SELECTABLE_VALUES_def SHAPES_def)
qed

lemma shapes_next:
  assumes "i < 3"
  shows "SHAPES ! nat ((indexOf (map Sel SHAPES) (Sel (SHAPES ! i)) + 1) mod int (length SHAPES))
       = SHAPES ! (Suc i mod 3)"
proof -
  from assms consider "i = 0" | "i = 1" | "i = 2" by arith
  then show ?thesis
    by cases (simp_all add: SHAPES_def)
qed

lemma clickCycle_step:
  assumes f: "List.find (\<lambda>p. PuzzlePiece.key p = uid) ps = Some p"
    and r: "\<not> revealed p" and s: "selectedValue p = SELECTABLE_VALUES ! i" and i: "i < 4"
  shows "List.find (\<lambda>p. PuzzlePiece.key p = uid) (clickCycle uid ps)
       = Some (p\<lparr>selectedValue := SELECTABLE_VALUES ! (Suc i mod 4)\<rparr>)"
proof -
  from f have k: "PuzzlePiece.key p = uid" by (auto simp: find_Some_iff)
  have "clickCycle uid ps = updateFirst (\<lambda>p. PuzzlePiece.key p = uid)
          (\<lambda>p. p\<lparr>selectedValue := SELECTABLE_VALUES ! (Suc i mod 4)\<rparr>) ps"
    using f r by (simp add: clickCycle_def handleClick_cycle_def Let_def s selectable_next [OF i])
  then show ?thesis using find_updateFirst [OF f] k by simp
qed

lemma clickRotate_first:
  assumes f: "List.find (\<lambda>p. PuzzlePiece.key p = uid) ps = Some p"
    and r: "\<not> revealed p" and s: "selectedValue p = Empty"
  shows "List.find (\<lambda>p. PuzzlePiece.key p = uid) (clickRotate uid ps)
       = Some (p\<lparr>selectedValue := Sel (SHAPES ! 0)\<rparr>)"
proof -
  from f have k: "PuzzlePiece.key p = uid" by (auto simp: find_Some_iff)
  have "clickRotate uid ps = updateFirst (\<lambda>p. PuzzlePiece.key p = uid)
          (\<lambda>p. p\<lparr>selectedValue := Sel (SHAPES ! 0)\<rparr>) ps"
    using f r s by (simp add: clickRotate_def handleClick_rotate_def)
  then show ?thesis using find_updateFirst [OF f] k by simp
qed

lemma clickRotate_step:
  assumes f: "List.find (\<lambda>p. PuzzlePiece.key p = uid) ps = Some p"
    and r: "\<not> revealed p" and s: "selectedValue p = Sel (SHAPES ! i)" and i: "i < 3"
  shows "List.find (\<lambda>p. PuzzlePiece.key p = uid) (clickRotate uid ps)
       = Some (p\<lparr>selectedValue := Sel (SHAPES ! (Suc i mod 3))\<rparr>)"
proof -
  from f have k: "PuzzlePiece.key p = uid" by (auto simp: find_Some_iff)
  have "clickRotate uid ps = updateFirst (\<lambda>p. PuzzlePiece.key p = uid)
          (\<lambda>p. p\<lparr>selectedValue := Sel (SHAPES ! (Suc i mod 3))\<rparr>) ps"
    using f r by (simp add: clickRotate_def handleClick_rotate_def Let_def s shapes_next [OF i])
  then show ?thesis using find_updateFirst [OF f] k by simp
qed

lemma clickCycle_iterate:
  assumes f: "List.find (\<lambda>p. PuzzlePiece.key p = uid) ps = Some p"
    and r: "\<not> revealed p" and s: "selectedValue p = Empty"
  shows "List.find (\<lambda>p. PuzzlePiece.key p = uid) ((clickCycle uid ^^ k) ps)
       = Some (p\<lparr>selectedValue := SELECTABLE_VALUES ! (k mod 4)\<rparr>)"
proof (induction k)
  case 0
  have "p\<lparr>selectedValue := SELECTABLE_VALUES ! 0\<rparr> = p"
    using s by (simp add: SELECTABLE_VALUES_def)
  with f show ?case by simp
next
  case (Suc k)
  let ?q = "p\<lparr>selectedValue := SELECTABLE_VALUES ! (k mod 4)\<rparr>"
  have "List.find (\<lambda>p. PuzzlePiece.key p = uid) (clickCycle uid ((clickCycle uid ^^ k) ps))
      = Some (?q\<lparr>selectedValue := SELECTABLE_VALUES ! (Suc (k mod 4) mod 4)\<rparr>)"
    by (rule clickCycle_step [OF Suc]) (use r in simp_all)
  then show ?case by (simp add: mod_Suc_eq)
qed

lemma clickRotate_iterate:
  assumes f: "List.find (\<lambda>p. PuzzlePiece.key p = uid) ps = Some p"
    and r: "\<not> revealed p" and s: "selectedValue p = Empty"
  shows "List.find (\<lambda>p. PuzzlePiece.key p = uid) ((clickRotate uid ^^ Suc k) ps)
       = Some (p\<lparr>selectedValue := Sel (SHAPES ! (k mod 3))\<rparr>)"
proof (induction k)
  case 0
  from clickRotate_first [OF f r s] show ?case by simp
next
  case (Suc k)
  let ?q = "p\<lparr>selectedValue := Sel (SHAPES ! (k mod 3))\<rparr>"
  have "List.find (\<lambda>p. PuzzlePiece.key p = uid) (clickRotate uid ((clickRotate uid ^^ Suc k) ps))
      = Some (?q\<lparr>selectedValue := Sel (SHAPES ! (Suc (k mod 3) mod 3))\<rparr>)"
    by (rule clickRotate_step [OF Suc]) (use r in simp_all)
  then show ?case by (simp add: mod_Suc_eq)
qed

lemma selectable_empty_iff: "i < 4 \<Longrightarrow> (SELECTABLE_VALUES ! i = Empty) = (i = 0)"
  by (cases i) (simp_all add: SELECTABLE_VALUES_def SHAPES_def nth_Cons split: nat.splits)

theorem rotate_fourth_click_counterexample:
  "List.find (\<lambda>p. PuzzlePiece.key p = ''[3,3]'') [singlePiece] = Some singlePiece
 \<and> \<not> revealed singlePiece \<and> selectedValue singlePiece = Empty
 \<and> map selectedValue ((clickRotate ''[3,3]'' ^^ 4) [singlePiece]) = [Sel circle]
 \<and> map selectedValue ((clickRotate ''[3,3]'' ^^ 4) [singlePiece]) \<noteq> [Empty]"
  by (simp add: eval_nat_numeral clickRotate_def handleClick_rotate_def singlePiece_def SHAPES_def)

text \<open>
  C5 (amended).  Both handlers that lock revealed pieces leave the piece array as it is
  when the piece clicked is revealed.  On a hidden piece with the empty selection, the
  handler that steps through \<open>SELECTABLE_VALUES\<close> selects, after \<open>k\<close> clicks, the entry
  \<open>k mod (N + 1)\<close> of \<open>[empty, shape 1, \<dots>, shape N]\<close>: the first click selects the first
  shape, and the selection is empty again exactly when \<open>k\<close> is a multiple of \<open>N + 1\<close>.
  The handler that rotates through \<open>SHAPES\<close> selects, after \<open>k + 1\<close> clicks, the shape at
  position \<open>k mod N\<close>, and never the empty selection again.
\<close>

theorem restricted_click:
  assumes f: "List.find (\<lambda>p. PuzzlePiece.key p = uid) ps = Some p"
  shows "(revealed p \<longrightarrow> handleClick_cycle uid ps = (None, ps) \<and> handleClick_rotate uid ps = (None, ps))
     \<and> (\<not> revealed p \<and> selectedValue p = Empty \<longrightarrow>
          (\<forall>k. map_option selectedValue
                  (List.find (\<lambda>p. PuzzlePiece.key p = uid) ((clickCycle uid ^^ k) ps))
                = Some (SELECTABLE_VALUES ! (k mod length SELECTABLE_VALUES)))
        \<and> (\<forall>k. (map_option selectedValue
                   (List.find (\<lambda>p. PuzzlePiece.key p = uid) ((clickCycle uid ^^ k) ps)) = Some Empty)
                = (k mod length SELECTABLE_VALUES = 0))
        \<and> (\<forall>k. map_option selectedValue
                  (List.find (\<lambda>p. PuzzlePiece.key p = uid) ((clickRotate uid ^^ Suc k) ps))
                = Some (Sel (SHAPES ! (k mod length SHAPES))))
        \<and> (\<forall>k. map_option selectedValue
                  (List.find (\<lambda>p. PuzzlePiece.key p = uid) ((clickRotate uid ^^ Suc k) ps))
                \<noteq> Some Empty))"
proof (intro conjI impI allI)
  assume "revealed p"
  with f show "handleClick_cycle uid ps = (None, ps)" "handleClick_rotate uid ps = (None, ps)"
    by (simp_all add: handleClick_cycle_def handleClick_rotate_def)
next
  fix k assume a: "\<not> revealed p \<and> selectedValue p = Empty"
  have n: "length SELECTABLE_VALUES = 4" "length SHAPES = 3"
    by (simp_all add: SELECTABLE_VALUES_def SHAPES_def)
  note c = clickCycle_iterate [OF f, of k] and t = clickRotate_iterate [OF f, of k]
  from a c show "map_option selectedValue
                  (List.find (\<lambda>p. PuzzlePiece.key p = uid) ((clickCycle uid ^^ k) ps))
                = Some (SELECTABLE_VALUES ! (k mod length SELECTABLE_VALUES))"
    by (simp add: n)
  from a c show "(map_option selectedValue
                   (List.find (\<lambda>p. PuzzlePiece.key p = uid) ((clickCycle uid ^^ k) ps)) = Some Empty)
                = (k mod length SELECTABLE_VALUES = 0)"
    by (simp add: n selectable_empty_iff)
  from a t show "map_option selectedValue
                  (List.find (\<lambda>p. PuzzlePiece.key p = uid) ((clickRotate uid ^^ Suc k) ps))
                = Some (Sel (SHAPES ! (k mod length SHAPES)))"
    by (simp add: n)
  from a t show "map_option selectedValue
                  (List.find (\<lambda>p. PuzzlePiece.key p = uid) ((clickRotate uid ^^ Suc k) ps))
                \<noteq> Some Empty"
    by simp
qed

theorem restricted_click_witness:
  "map_option selectedValue
     (List.find (\<lambda>p. PuzzlePiece.key p = ''[3,3]'') ((clickCycle ''[3,3]'' ^^ 1) [singlePiece]))
     = Some (Sel circle)
 \<and> map_option selectedValue
     (List.find (\<lambda>p. PuzzlePiece.key p = ''[3,3]'') ((clickCycle ''[3,3]'' ^^ 2) [singlePiece]))
     = Some (Sel square)
 \<and> map_option selectedValue
     (List.find (\<lambda>p. PuzzlePiece.key p = ''[3,3]'') ((clickCycle ''[3,3]'' ^^ 4) [singlePiece]))
     = Some Empty
 \<and> map_option selectedValue
     (List.find (\<lambda>p. PuzzlePiece.key p = ''[3,3]'') ((clickRotate ''[3,3]'' ^^ Suc 3) [singlePiece]))
     = Some (Sel circle)
 \<and> handleClick_cycle ''[4,3]'' examplePieces = (None, examplePieces)
 \<and> handleClick_rotate ''[4,3]'' examplePieces = (None, examplePieces)"
proof -
  have f: "List.find (\<lambda>p. PuzzlePiece.key p = ''[3,3]'') [singlePiece] = Some singlePiece"
    and h: "\<not> revealed singlePiece \<and> selectedValue singlePiece = Empty"
    by (simp_all add: singlePiece_def)
  have g: "List.find (\<lambda>p. PuzzlePiece.key p = ''[4,3]'') examplePieces = Some (examplePieces ! 1)"
    and r: "revealed (examplePieces ! 1)"
    by (simp_all add: examplePieces_def)
  have v: "SELECTABLE_VALUES ! (1 mod length SELECTABLE_VALUES) = Sel circle"
          "SELECTABLE_VALUES ! (2 mod length SELECTABLE_VALUES) = Sel square"
          "SELECTABLE_VALUES ! (4 mod length SELECTABLE_VALUES) = Empty"
          "SHAPES ! (3 mod length SHAPES) = circle"
    by (simp_all add: SELECTABLE_VALUES_def SHAPES_def)
  from restricted_click [OF f] h restricted_click [OF g] r v
  show ?thesis by metis
qed

theorem unknown_key_raises_counterexample:
  "''[9,9]'' \<notin> PuzzlePiece.key ` set (pieces exampleContainer)
 \<and> fst (handleClick noRender ''[9,9]'' exampleContainer) = Some TypeError
 \<and> fst (handleClick_rotate ''[9,9]'' examplePieces) = Some TypeError
 \<and> fst (handleClick_cycle ''[9,9]'' examplePieces) = Some TypeError"
  by (simp add: handleClick_def handleClick_rotate_def handleClick_cycle_def
        exampleContainer_def examplePieces_def)

text \<open>
  C6 (amended).  When the key matches no piece, each of the three click handlers throws
  a \<^verbatim>\<open>TypeError\<close> (it destructures the \<^verbatim>\<open>undefined\<close> that \<^verbatim>\<open>find\<close> returned) before it
  assigns anything: the pieces, the hints and the other fields are left as they were.
\<close>

theorem unknown_key_raises:
  assumes "uid \<notin> PuzzlePiece.key ` set (pieces st)"
  shows "handleClick render uid st = (Some TypeError, st)
       \<and> handleClick_rotate uid (pieces st) = (Some TypeError, pieces st)
       \<and> handleClick_cycle uid (pieces st) = (Some TypeError, pieces st)"
proof -
  from assms have "List.find (\<lambda>p. PuzzlePiece.key p = uid) (pieces st) = None"
    by (auto simp: find_None_iff)
  then show ?thesis
    by (simp add: handleClick_def handleClick_rotate_def handleClick_cycle_def)
qed

theorem unknown_key_raises_witness:
  "handleClick noRender ''[5,3]'' exampleContainer = (Some TypeError, exampleContainer)
 \<and> handleClick_rotate ''[5,3]'' (pieces exampleContainer) = (Some TypeError, pieces exampleContainer)
 \<and> handleClick_cycle ''[5,3]'' (pieces exampleContainer) = (Some TypeError, pieces exampleContainer)"
proof -
  have "''[5,3]'' \<notin> PuzzlePiece.key ` set (pieces exampleContainer)"
    by (simp add: exampleContainer_def examplePieces_def)
  then show ?thesis by (rule unknown_key_raises)
qed

lemma example_fractional:
  "pieces (generatePieces render random (set_rows 2 (set_columns (5 / 2) initialContainer))) ! 3
     = pieceAt render (5 / 2) random 3"
proof -
  have "nat \<lceil>(5 / 2 :: real) * 2\<rceil> = 5" by simp
  then show ?thesis
    by (simp add: generated_pieces set_rows_def set_columns_def Number_def)
qed

theorem dimension_not_coerced_counterexample:
  "(5 / 2 :: real) \<notin> \<int>
 \<and> columns (set_columns (5 / 2) initialContainer) = 5 / 2
 \<and> columns (set_columns (5 / 2) initialContainer) \<notin> \<int>
 \<and> rows (set_rows (5 / 2) initialContainer) \<notin> \<int>
 \<and> column (PuzzlePiece.coordinates
       (pieces (generatePieces noRender (constRandom (3 / 4))
                 (set_rows 2 (set_columns (5 / 2) initialContainer))) ! 3)) = 7 / 2"
proof -
  have n: "(5 / 2 :: real) \<notin> \<int>"
  proof
    assume "(5 / 2 :: real) \<in> \<int>"
    then obtain z :: int where "(5 / 2 :: real) = of_int z" by (auto elim: Ints_cases)
    then have "(5 :: real) = of_int (2 * z)" by simp
    then have "(5 :: int) = 2 * z" by (metis of_int_eq_iff of_int_numeral)
    then show False by presburger
  qed
  have c: "column (PuzzlePiece.coordinates (pieceAt noRender (5 / 2) (constRandom (3 / 4)) 3)) = 7 / 2"
    by (simp add: pieceAt_def newPiece_def Let_def js_rem_def trunc_def SHAPES_def)
  have s: "columns (set_columns (5 / 2) initialContainer) = 5 / 2"
          "rows (set_rows (5 / 2) initialContainer) = 5 / 2"
    by (simp_all add: set_columns_def set_rows_def Number_def)
  show ?thesis
    unfolding example_fractional s using n c by blast
qed

text \<open>
  C9 (amended).  The setters store \<^verbatim>\<open>Number(val)\<close>, which for a numeric input is the
  input itself: nothing rounds or truncates it, so the stored dimension is an integer
  iff the input is.  \<^verbatim>\<open>generatePieces\<close> runs its loop on the stored values as they
  are, up to the count \<open>columns * rows\<close>, and the hint generators count lines up to the
  stored value plus the number of shapes.
\<close>

theorem dimension_stored_as_given:
  "columns (set_columns val st) = val
 \<and> rows (set_rows val st) = val
 \<and> (columns (set_columns val st) \<in> \<int> \<longleftrightarrow> val \<in> \<int>)
 \<and> (rows (set_rows val st) \<in> \<int> \<longleftrightarrow> val \<in> \<int>)
 \<and> pieces (generatePieces render random (set_columns val st))
     = generatePieces_loop render val (val * rows st) random 0 []
 \<and> pieces (generatePieces render random (set_rows val st))
     = generatePieces_loop render (columns st) (columns st * val) random 0 []
 \<and> generateColumnHints render (set_columns val st)
     = generateHints_impl render (set_columns val st) (val + real (length SHAPES))
         (real (length SHAPES)) False
 \<and> generateRowHints render (set_rows val st)
     = generateHints_impl render (set_rows val st) (val + real (length SHAPES))
         (real (length SHAPES)) True"
  by (simp add: set_columns_def set_rows_def Number_def generatePieces_def
        generatePieces_impl_def generateColumnHints_def generateRowHints_def)

subsection \<open>Pieces and hints never share a cell\<close>

lemma piece_keys_grid:
  "map PuzzlePiece.key (map (pieceAt render (real c) random) [0 ..< c * r])
     = map (\<lambda>(a, b). stringifyCoordinates render \<lparr>column = real a, row = real b\<rparr>)
         (map (\<lambda>i. (i mod c + 3, i div c + 3)) [0 ..< c * r])"
proof (cases "c = 0")
  case True
  then show ?thesis by simp
next
  case False
  then have c: "0 < c" by simp
  show ?thesis by (simp add: pieceAt_key pieceAt_coordinates [OF c])
qed

lemma hint_keys_grid:
  "map PuzzleHint.key
     (concat (map (\<lambda>(sh, index). map (\<lambda>j. newHint render st isRow sh index (real j)) [3 ..< 3 + m])
        (zip SHAPES [0 ..< length SHAPES])))
     = map (\<lambda>(a, b). stringifyCoordinates render \<lparr>column = real a, row = real b\<rparr>)
         (concat (map (\<lambda>i. map (\<lambda>j. if isRow then (i, j) else (j, i)) [3 ..< 3 + m]) [0, 1, 2]))"
  unfolding shapes_indexed by (simp add: newHint_fields comp_def)

lemma cells_distinct:
  fixes c r :: nat
  shows "distinct (map (\<lambda>i. (i mod c + 3, i div c + 3)) [0 ..< c * r]
           @ concat (map (\<lambda>i. map (\<lambda>j. (j, i)) [3 ..< 3 + c]) [0, 1, 2])
           @ concat (map (\<lambda>i. map (\<lambda>j. (i, j)) [3 ..< 3 + r]) [0, 1, 2 :: nat]))"
proof -
  have p: "distinct (map (\<lambda>i. (i mod c + 3, i div c + 3)) [0 ..< c * r])"
    by (auto simp: distinct_map inj_on_def intro: grid_index_inj)
  have h: "distinct (concat (map (\<lambda>i. map (\<lambda>j. (j, i)) [3 ..< 3 + c]) [0, 1, 2 :: nat]))"
          "distinct (concat (map (\<lambda>i. map (\<lambda>j. (i, j)) [3 ..< 3 + r]) [0, 1, 2 :: nat]))"
    by (auto simp: distinct_map inj_on_def)
  show ?thesis
    unfolding distinct_append using p h by auto
qed

lemma cell_key_inj:
  "inj (\<lambda>(a, b). stringifyCoordinates render \<lparr>column = real a, row = real b\<rparr>)"
  by (rule injI) (auto dest: stringifyCoordinates_nat_inj)

lemma grid_bands_and_keys:
  "let st1 = generatePieces render random (set_rows (real r) (set_columns (real c) st));
       n = real (length SHAPES)
   in (\<forall>p \<in> set (pieces st1).
         n \<le> column (PuzzlePiece.coordinates p) \<and> n \<le> row (PuzzlePiece.coordinates p))
    \<and> (\<forall>h \<in> set (generateRowHints render st1).
         column (PuzzleHint.coordinates h) < n \<and> n \<le> row (PuzzleHint.coordinates h))
    \<and> (\<forall>h \<in> set (generateColumnHints render st1).
         n \<le> column (PuzzleHint.coordinates h) \<and> row (PuzzleHint.coordinates h) < n)
    \<and> new render random (set_rows (real r) (set_columns (real c) st)) = generateHints render st1
    \<and> hints (generateHints render st1)
        = generateColumnHints render st1 @ generateRowHints render st1
    \<and> distinct (map PuzzlePiece.key (pieces (generateHints render st1))
               @ map PuzzleHint.key (hints (generateHints render st1)))"
proof -
  let ?s = "set_rows (real r) (set_columns (real c) st)"
  let ?st = "generatePieces render random ?s"
  let ?cell = "\<lambda>(a, b). stringifyCoordinates render \<lparr>column = real a, row = real b\<rparr>"
  have n: "real (length SHAPES) = 3" by (simp add: SHAPES_def)
  have ps: "pieces ?st = map (pieceAt render (real c) random) [0 ..< c * r]"
    by (rule pieces_grid)
  have rw: "rows ?st = real r" and cl: "columns ?st = real c"
    by (simp_all add: generatePieces_def set_rows_def set_columns_def Number_def)
  have a: "\<forall>p \<in> set (pieces ?st).
             3 \<le> column (PuzzlePiece.coordinates p) \<and> 3 \<le> row (PuzzlePiece.coordinates p)"
  proof (cases "c = 0")
    case True
    then show ?thesis unfolding ps by simp
  next
    case False
    then have "0 < c" by simp
    then show ?thesis unfolding ps by (simp add: pieceAt_coordinates)
  qed
  have b: "\<forall>h \<in> set (generateRowHints render ?st).
             column (PuzzleHint.coordinates h) < 3 \<and> 3 \<le> row (PuzzleHint.coordinates h)"
    unfolding generateRowHints_eq [OF rw] shapes_indexed by (auto simp: newHint_fields)
  have d: "\<forall>h \<in> set (generateColumnHints render ?st).
             3 \<le> column (PuzzleHint.coordinates h) \<and> row (PuzzleHint.coordinates h) < 3"
    unfolding generateColumnHints_eq [OF cl] shapes_indexed by (auto simp: newHint_fields)
  have e: "new render random ?s = generateHints render ?st"
    by (simp add: new_def)
  have h: "hints (generateHints render ?st)
         = generateColumnHints render ?st @ generateRowHints render ?st"
    by (simp add: generateHints_def)
  have "map PuzzlePiece.key (pieces (generateHints render ?st))
          @ map PuzzleHint.key (hints (generateHints render ?st))
      = map ?cell (map (\<lambda>i. (i mod c + 3, i div c + 3)) [0 ..< c * r]
           @ concat (map (\<lambda>i. map (\<lambda>j. (j, i)) [3 ..< 3 + c]) [0, 1, 2])
           @ concat (map (\<lambda>i. map (\<lambda>j. (i, j)) [3 ..< 3 + r]) [0, 1, 2]))"
    unfolding h pieces_generateHints ps generateRowHints_eq [OF rw] generateColumnHints_eq [OF cl]
      map_append piece_keys_grid hint_keys_grid
    by simp
  moreover have "distinct (map ?cell (map (\<lambda>i. (i mod c + 3, i div c + 3)) [0 ..< c * r]
           @ concat (map (\<lambda>i. map (\<lambda>j. (j, i)) [3 ..< 3 + c]) [0, 1, 2])
           @ concat (map (\<lambda>i. map (\<lambda>j. (i, j)) [3 ..< 3 + r]) [0, 1, 2])))"
    unfolding distinct_map
    using cells_distinct [of c r] cell_key_inj [of render] by (blast intro: inj_on_subset)
  ultimately have k: "distinct (map PuzzlePiece.key (pieces (generateHints render ?st))
               @ map PuzzleHint.key (hints (generateHints render ?st)))"
    by simp
  show ?thesis
    unfolding Let_def n using a b d e h k by blast
qed

lemma example_negative:
  "pieces (generatePieces render random (set_rows (- 1) (set_columns (- 2) initialContainer)))
     = [pieceAt render (- 2) random 0, pieceAt render (- 2) random 1]"
proof -
  have "nat \<lceil>(- 2 :: real) * (- 1)\<rceil> = 2" by simp
  then show ?thesis
    by (simp add: generated_pieces set_rows_def set_columns_def Number_def upt_conv_Cons)
qed

theorem negative_dimensions_counterexample:
  "columns (set_rows (- 1) (set_columns (- 2) initialContainer)) = - 2
 \<and> rows (set_rows (- 1) (set_columns (- 2) initialContainer)) = - 1
 \<and> length (pieces (generatePieces noRender (constRandom (3 / 4))
                     (set_rows (- 1) (set_columns (- 2) initialContainer)))) = 2
 \<and> PuzzlePiece.coordinates
       (pieces (generatePieces noRender (constRandom (3 / 4))
                 (set_rows (- 1) (set_columns (- 2) initialContainer))) ! 1)
     = \<lparr>column = 4, row = 2\<rparr>
 \<and> row (PuzzlePiece.coordinates
       (pieces (generatePieces noRender (constRandom (3 / 4))
                 (set_rows (- 1) (set_columns (- 2) initialContainer))) ! 1))
     < real (length SHAPES)"
proof -
  have c: "PuzzlePiece.coordinates (pieceAt noRender (- 2) (constRandom (3 / 4)) 1)
             = \<lparr>column = 4, row = 2\<rparr>"
  proof -
    have t: "\<lceil>- (1 / 2 :: real)\<rceil> = 0" by (rule ceiling_unique) simp_all
    have f: "\<lfloor>- (1 / 2 :: real)\<rfloor> = - 1" by (rule floor_unique) simp_all
    show ?thesis
      by (simp add: pieceAt_def newPiece_def Let_def js_rem_def trunc_def SHAPES_def t f)
  qed
  have n: "real (length SHAPES) = 3" by (simp add: SHAPES_def)
  show ?thesis
    unfolding example_negative n
    using c by (simp add: set_rows_def set_columns_def Number_def)
qed

text \<open>
  C10 (amended).  On a grid whose dimensions are integers and not negative, every
  generated piece has both coordinates at or above the number \<open>n\<close> of shapes; every row
  hint has its column below \<open>n\<close> and its row at or above \<open>n\<close>; every column hint has its
  column at or above \<open>n\<close> and its row below \<open>n\<close>.  The keys of the pieces and of the
  hints, taken together, are pairwise distinct.
\<close>

theorem pieces_and_hints_disjoint:
  assumes c: "0 \<le> c" and r: "0 \<le> r"
  shows
  "let st1 = generatePieces render random (set_rows (of_int r) (set_columns (of_int c) st));
       n = real (length SHAPES)
   in (\<forall>p \<in> set (pieces st1).
         n \<le> column (PuzzlePiece.coordinates p) \<and> n \<le> row (PuzzlePiece.coordinates p))
    \<and> (\<forall>h \<in> set (generateRowHints render st1).
         column (PuzzleHint.coordinates h) < n \<and> n \<le> row (PuzzleHint.coordinates h))
    \<and> (\<forall>h \<in> set (generateColumnHints render st1).
         n \<le> column (PuzzleHint.coordinates h) \<and> row (PuzzleHint.coordinates h) < n)
    \<and> new render random (set_rows (of_int r) (set_columns (of_int c) st)) = generateHints render st1
    \<and> hints (generateHints render st1)
        = generateColumnHints render st1 @ generateRowHints render st1
    \<and> distinct (map PuzzlePiece.key (pieces (generateHints render st1))
               @ map PuzzleHint.key (hints (generateHints render st1)))"
proof -
  have e: "(of_int c :: real) = real (nat c)" "(of_int r :: real) = real (nat r)"
    using c r by simp_all
  show ?thesis
    unfolding e by (rule grid_bands_and_keys)
qed

theorem pieces_and_hints_disjoint_witness:
  "let st1 = generatePieces noRender (constRandom (3 / 4))
               (set_rows (of_int 1) (set_columns (of_int 2) initialContainer))
   in (0 :: int) \<le> 2 \<and> (0 :: int) \<le> 1
    \<and> pieces st1 ! 0 \<in> set (pieces st1)
    \<and> 3 \<le> column (PuzzlePiece.coordinates (pieces st1 ! 0))
    \<and> 3 \<le> row (PuzzlePiece.coordinates (pieces st1 ! 0))
    \<and> generateRowHints noRender st1 ! 0 \<in> set (generateRowHints noRender st1)
    \<and> column (PuzzleHint.coordinates (generateRowHints noRender st1 ! 0)) < 3
    \<and> generateColumnHints noRender st1 ! 0 \<in> set (generateColumnHints noRender st1)
    \<and> row (PuzzleHint.coordinates (generateColumnHints noRender st1 ! 0)) < 3
    \<and> distinct (map PuzzlePiece.key (pieces (generateHints noRender st1))
               @ map PuzzleHint.key (hints (generateHints noRender st1)))"
proof -
  let ?s = "set_rows (of_int 1) (set_columns (of_int 2) initialContainer)"
  let ?st = "generatePieces noRender (constRandom (3 / 4)) ?s"
  have h: "(0 :: int) \<le> 2" "(0 :: int) \<le> 1" by simp_all
  have n: "real (length SHAPES) = 3" by (simp add: SHAPES_def)
  have e: "?s = set_rows (real 1) (set_columns (real 2) initialContainer)" by simp
  have rw: "rows ?st = real 1" and cl: "columns ?st = real 2"
    by (simp_all add: generatePieces_def set_rows_def set_columns_def Number_def)
  have "length (pieces ?st) = 2"
    unfolding e pieces_grid by simp
  then have p: "pieces ?st ! 0 \<in> set (pieces ?st)" by (intro nth_mem) simp
  have "length (generateRowHints noRender ?st) = 3"
    unfolding generateRowHints_eq [OF rw] shapes_indexed by simp
  then have r: "generateRowHints noRender ?st ! 0 \<in> set (generateRowHints noRender ?st)"
    by (intro nth_mem) simp
  have "length (generateColumnHints noRender ?st) = 6"
    unfolding generateColumnHints_eq [OF cl] shapes_indexed by simp
  then have c: "generateColumnHints noRender ?st ! 0 \<in> set (generateColumnHints noRender ?st)"
    by (intro nth_mem) simp
  note t = pieces_and_hints_disjoint [OF h, of noRender "constRandom (3 / 4)" initialContainer,
      unfolded Let_def n]
  from t p have a1: "3 \<le> column (PuzzlePiece.coordinates (pieces ?st ! 0))"
    and a2: "3 \<le> row (PuzzlePiece.coordinates (pieces ?st ! 0))" by blast+
  from t r have a3: "column (PuzzleHint.coordinates (generateRowHints noRender ?st ! 0)) < 3"
    by blast
  from t c have a4: "row (PuzzleHint.coordinates (generateColumnHints noRender ?st ! 0)) < 3"
    by blast
  from t have a5: "distinct (map PuzzlePiece.key (pieces (generateHints noRender ?st))
               @ map PuzzleHint.key (hints (generateHints noRender ?st)))"
    by (elim conjE)
  show ?thesis
    unfolding Let_def using h p a1 a2 r a3 c a4 a5 by (intro conjI)
qed

end
